theory Spec2Isabelle
  imports Main "HOL-Library.List_Lexorder"
begin

section \<open>Strings of UTF-16 code units\<close>

text \<open>
  A JavaScript string is a sequence of UTF-16 code units. A code unit is modelled as a
  natural number and a string as a list of them, so that the Vietnamese letters of the
  parser's patterns (all in the Basic Multilingual Plane, one code unit each in the NFC
  form the source file is written in) are single elements. \<open>str\<close> embeds an ASCII
  literal.
\<close>

type_synonym cu = nat
type_synonym jstring = "cu list"

definition str :: "string \<Rightarrow> jstring" where
  "str s = map of_char s"

text \<open>
  \<open>\s\<close> of a regular expression and the characters \<open>trim\<close> strips: ECMAScript's
  WhiteSpace and LineTerminator code points.
\<close>

definition isWhiteSpace :: "cu \<Rightarrow> bool" where
  "isWhiteSpace c =
     (c = 9 \<or> c = 10 \<or> c = 11 \<or> c = 12 \<or> c = 13 \<or> c = 32 \<or> c = 160 \<or> c = 5760
      \<or> (8192 \<le> c \<and> c \<le> 8202) \<or> c = 8232 \<or> c = 8233 \<or> c = 8239 \<or> c = 8287
      \<or> c = 12288 \<or> c = 65279)"

text \<open>The characters \<open>.\<close> does not match.\<close>

definition isLineTerminator :: "cu \<Rightarrow> bool" where
  "isLineTerminator c = (c = 10 \<or> c = 13 \<or> c = 8232 \<or> c = 8233)"

definition isDigit :: "cu \<Rightarrow> bool" where
  "isDigit c = (48 \<le> c \<and> c \<le> 57)"

definition trim :: "jstring \<Rightarrow> jstring" where
  "trim s = rev (dropWhile isWhiteSpace (rev (dropWhile isWhiteSpace s)))"

fun join :: "jstring \<Rightarrow> jstring list \<Rightarrow> jstring" where
  "join sep [] = []"
| "join sep [x] = x"
| "join sep (x # y # ys) = x @ sep @ join sep (y # ys)"

text \<open>\<open>s.includes(sub)\<close>: \<open>sub\<close> occurs in \<open>s\<close> as a contiguous substring.\<close>

fun str_includes :: "jstring \<Rightarrow> jstring \<Rightarrow> bool" where
  "str_includes [] sub = (sub = [])"
| "str_includes (c # cs) sub = (take (length sub) (c # cs) = sub \<or> str_includes cs sub)"

text \<open>
  \<open>toUpperCase\<close> and \<open>toLowerCase\<close> on the ASCII letters. The parser applies them only
  to a letter that one of the classes \<open>[A-D]\<close>, \<open>[a-d]\<close> matched.
\<close>

definition toUpperCase :: "jstring \<Rightarrow> jstring" where
  "toUpperCase s = map (\<lambda>c. if 97 \<le> c \<and> c \<le> 122 then c - 32 else c) s"

definition toLowerCase :: "jstring \<Rightarrow> jstring" where
  "toLowerCase s = map (\<lambda>c. if 65 \<le> c \<and> c \<le> 90 then c + 32 else c) s"

text \<open>
  \<open>parseInt\<close> on the digits a \<open>\d+\<close> group captured (never empty, so never NaN). The
  result is exact as a JavaScript number below \<open>2^53\<close>.
\<close>

definition parseInt :: "jstring \<Rightarrow> nat" where
  "parseInt s = foldl (\<lambda>n c. 10 * n + (c - 48)) 0 (takeWhile isDigit s)"

text \<open>The decimal digits of a number, as a template literal prints it.\<close>

fun showNat :: "nat \<Rightarrow> jstring" where
  "showNat n = (if n < 10 then [48 + n] else showNat (n div 10) @ [48 + n mod 10])"

declare showNat.simps [simp del]

section \<open>Regular expressions\<close>

text \<open>
  The patterns of the parser use literals, character classes, \<open>.\<close>, the anchors,
  alternation, greedy and lazy repetition, capture groups and negative lookahead. A
  pattern is a term of \<open>rx\<close>; \<open>ms\<close> lists the states a backtracking matcher reaches from a
  state, in the order it tries them, so its head is the match ECMAScript finds.

  Under the \<open>i\<close> flag (without \<open>u\<close>) two code units match when they are equal following
  \<open>Canonicalize\<close>, which maps a code unit to its single-unit upper case, and never maps a
  code unit outside ASCII into ASCII. \<open>canonicalize\<close> is that map on ASCII, on Latin-1,
  on \<open>U+0111\<close> and on the Latin Extended Additional block, where every non-ASCII letter
  of the parser's patterns lies; elsewhere it is the identity, which leaves the match
  relation against the letters of the patterns unchanged.
\<close>

definition canonicalize :: "cu \<Rightarrow> cu" where
  "canonicalize c =
     (if 97 \<le> c \<and> c \<le> 122 then c - 32
      else if 224 \<le> c \<and> c \<le> 254 \<and> c \<noteq> 247 then c - 32
      else if c = 273 then 272
      else if 7840 \<le> c \<and> c \<le> 7929 \<and> odd c then c - 1
      else c)"

datatype atom = Lit cu | Rng cu cu | Space | NonSpace | Digit

fun atom_match :: "bool \<Rightarrow> atom \<Rightarrow> cu \<Rightarrow> bool" where
  "atom_match ic (Lit a) c = (if ic then canonicalize a = canonicalize c else a = c)"
| "atom_match ic (Rng lo hi) c =
     (if ic then \<exists>a \<in> set [lo..<Suc hi]. canonicalize a = canonicalize c
      else lo \<le> c \<and> c \<le> hi)"
| "atom_match ic Space c = isWhiteSpace c"
| "atom_match ic NonSpace c = (\<not> isWhiteSpace c)"
| "atom_match ic Digit c = isDigit c"

datatype rx =
    Eps
  | Cls "atom list"
  | Dot
  | Bol
  | Eol
  | Seq rx rx
  | Alt rx rx
  | Star rx
  | LazyStar rx
  | Grp nat rx
  | NegLook rx

record mstate =
  m_pos :: nat
  m_rest :: jstring
  m_caps :: "nat \<Rightarrow> jstring option"

definition advance :: "mstate \<Rightarrow> mstate" where
  "advance s = s\<lparr>m_pos := Suc (m_pos s), m_rest := tl (m_rest s)\<rparr>"

function ms :: "bool \<Rightarrow> rx \<Rightarrow> mstate \<Rightarrow> mstate list" where
  "ms ic Eps s = [s]"
| "ms ic (Cls as) s =
     (case m_rest s of
        [] \<Rightarrow> []
      | c # cs \<Rightarrow> if \<exists>a \<in> set as. atom_match ic a c then [advance s] else [])"
| "ms ic Dot s =
     (case m_rest s of
        [] \<Rightarrow> []
      | c # cs \<Rightarrow> if isLineTerminator c then [] else [advance s])"
| "ms ic Bol s = (if m_pos s = 0 then [s] else [])"
| "ms ic Eol s = (if m_rest s = [] then [s] else [])"
| "ms ic (Seq a b) s = concat (map (ms ic b) (ms ic a s))"
| "ms ic (Alt a b) s = ms ic a s @ ms ic b s"
| "ms ic (Star r) s =
     concat (map (\<lambda>s'. if length (m_rest s') < length (m_rest s) then ms ic (Star r) s' else [])
                 (ms ic r s)) @ [s]"
| "ms ic (LazyStar r) s =
     s # concat (map (\<lambda>s'. if length (m_rest s') < length (m_rest s)
                            then ms ic (LazyStar r) s' else [])
                     (ms ic r s))"
| "ms ic (Grp k r) s =
     map (\<lambda>s'. s'\<lparr>m_caps := (m_caps s')(k \<mapsto> take (m_pos s' - m_pos s) (m_rest s))\<rparr>)
         (ms ic r s)"
| "ms ic (NegLook r) s = (if ms ic r s = [] then [s] else [])"
  by pat_completeness auto
termination
  by (relation "inv_image (less_than <*lex*> less_than) (\<lambda>(ic, r, s). (size r, length (m_rest s)))")
     auto

lemmas ms_star_simps = ms.simps(8) ms.simps(9)

declare ms.simps(8) [simp del] ms.simps(9) [simp del]

text \<open>Sequences, literal runs and the bounded repetitions, as the primitive forms.\<close>

definition cat :: "rx list \<Rightarrow> rx" where
  "cat rs = foldr Seq rs Eps"

definition lits :: "jstring \<Rightarrow> rx" where
  "lits s = foldr (\<lambda>c r. Seq (Cls [Lit c]) r) s Eps"

definition plus :: "rx \<Rightarrow> rx" where
  "plus r = Seq r (Star r)"

definition opt :: "rx \<Rightarrow> rx" where
  "opt r = Alt r Eps"

definition atLeast3 :: "rx \<Rightarrow> rx" where
  "atLeast3 r = Seq r (Seq r (Seq r (Star r)))"

definition ws :: rx where
  "ws = Cls [Space]"

text \<open>
  \<open>exec\<close> of a pattern without the \<open>g\<close> flag, and the search \<open>replace\<close> runs from
  \<open>lastIndex\<close>: the first start index, from \<open>i\<close> on, at which the pattern matches, with
  the state of that match.
\<close>

definition start_at :: "jstring \<Rightarrow> nat \<Rightarrow> mstate" where
  "start_at tx i = \<lparr>m_pos = i, m_rest = drop i tx, m_caps = Map.empty\<rparr>"

function search_from :: "bool \<Rightarrow> rx \<Rightarrow> jstring \<Rightarrow> nat \<Rightarrow> (nat \<times> mstate) option" where
  "search_from ic r tx i =
     (if length tx < i then None
      else case ms ic r (start_at tx i) of
             s # _ \<Rightarrow> Some (i, s)
           | [] \<Rightarrow> search_from ic r tx (Suc i))"
  by pat_completeness auto
termination
  by (relation "measure (\<lambda>(ic, r, tx, i). Suc (length tx) - i)") auto

declare search_from.simps [simp del]

definition rx_exec :: "bool \<Rightarrow> rx \<Rightarrow> jstring \<Rightarrow> (nat \<times> mstate) option" where
  "rx_exec ic r tx = search_from ic r tx 0"

definition rx_test :: "bool \<Rightarrow> rx \<Rightarrow> jstring \<Rightarrow> bool" where
  "rx_test ic r tx = (rx_exec ic r tx \<noteq> None)"

text \<open>
  A capture of a match. A group that took no part in the match reads as \<open>undefined\<close>;
  every group the parser reads is a mandatory part of its pattern.
\<close>

definition group :: "nat \<times> mstate \<Rightarrow> nat \<Rightarrow> jstring" where
  "group m k = (case m_caps (snd m) k of Some g \<Rightarrow> g | None \<Rightarrow> [])"


lemma ms_mono:
  "s' \<in> set (ms ic r s) \<Longrightarrow>
   m_pos s \<le> m_pos s' \<and> length (m_rest s') \<le> length (m_rest s)"
proof (induction ic r s arbitrary: s' rule: ms.induct)
  case (1 ic s)
  then show ?case by simp
next
  case (2 ic as s)
  then show ?case by (auto simp: advance_def split: list.splits if_splits)
next
  case (3 ic s)
  then show ?case by (auto simp: advance_def split: list.splits if_splits)
next
  case (4 ic s)
  then show ?case by (auto split: if_splits)
next
  case (5 ic s)
  then show ?case by (auto split: if_splits)
next
  case (6 ic a b s)
  from 6(3) obtain s1 where s1: "s1 \<in> set (ms ic a s)" "s' \<in> set (ms ic b s1)" by auto
  from 6(1) [OF s1(1)] 6(2) [OF s1(1) s1(2)] show ?case by auto
next
  case (7 ic a b s)
  then show ?case by auto
next
  case (8 ic r s)
  from 8(3) have "s' \<in> set (concat (map (\<lambda>s'. if length (m_rest s') < length (m_rest s) then ms ic (Star r) s' else [])
                 (ms ic r s)) @ [s])" by (simp add: ms.simps(8) [of ic r s])
  then consider "s' = s"
    | s1 where "s1 \<in> set (ms ic r s)" "length (m_rest s1) < length (m_rest s)" "s' \<in> set (ms ic (Star r) s1)"
    by (auto split: if_splits)
  then show ?case
  proof cases
    case 1
    then show ?thesis by simp
  next
    case 2
    from 8(1) [OF 2(1)] 8(2) [OF 2(1) 2(2) 2(3)] show ?thesis by auto
  qed
next
  case (9 ic r s)
  from 9(3) have "s' \<in> set (s # concat (map (\<lambda>s'. if length (m_rest s') < length (m_rest s) then ms ic (LazyStar r) s' else [])
                 (ms ic r s)))" by (simp add: ms.simps(9) [of ic r s])
  then consider "s' = s"
    | s1 where "s1 \<in> set (ms ic r s)" "length (m_rest s1) < length (m_rest s)" "s' \<in> set (ms ic (LazyStar r) s1)"
    by (auto split: if_splits)
  then show ?case
  proof cases
    case 1
    then show ?thesis by simp
  next
    case 2
    from 9(1) [OF 2(1)] 9(2) [OF 2(1) 2(2) 2(3)] show ?thesis by auto
  qed
next
  case (10 ic k r s)
  then show ?case by auto
next
  case (11 ic r s)
  then show ?case by (auto split: if_splits)
qed

lemma search_from_bounds:
  "search_from ic r tx i = Some (j, s) \<Longrightarrow> i \<le> j \<and> j \<le> length tx \<and> j \<le> m_pos s"
proof (induction ic r tx i rule: search_from.induct)
  case (1 ic r tx i)
  show ?case
  proof (cases "ms ic r (start_at tx i)")
    case Nil
    with 1 show ?thesis
      by (auto simp: search_from.simps [of ic r tx i] split: if_splits)
  next
    case (Cons s0 rest)
    then have "s0 \<in> set (ms ic r (start_at tx i))" by simp
    from ms_mono [OF this] have "i \<le> m_pos s0" by (simp add: start_at_def)
    with 1 Cons show ?thesis
      by (auto simp: search_from.simps [of ic r tx i] split: if_splits)
  qed
qed

text \<open>
  The matches a pattern with the \<open>g\<close> flag yields to \<open>replace\<close>: following a match the
  search resumes at its end, one further on when the match was empty.
\<close>

function matchAll_from :: "bool \<Rightarrow> rx \<Rightarrow> jstring \<Rightarrow> nat \<Rightarrow> (nat \<times> mstate) list" where
  "matchAll_from ic r tx i =
     (case search_from ic r tx i of
        None \<Rightarrow> []
      | Some (j, s) \<Rightarrow>
          (j, s) # matchAll_from ic r tx (if m_pos s = j then Suc j else m_pos s))"
  by pat_completeness auto
termination
proof (relation "measure (\<lambda>(ic, r, tx, i). Suc (length tx) - i)", goal_cases)
  case 1
  show ?case by simp
next
  case (2 ic r tx i x j s)
  then have "search_from ic r tx i = Some (j, s)" by simp
  from search_from_bounds [OF this] show ?case by auto
qed

declare matchAll_from.simps [simp del]

section \<open>String.prototype.replace\<close>

text \<open>
  A replacement given as a string is a template: \<open>GetSubstitution\<close> expands \<open>$$\<close> to one
  dollar sign, \<open>$&\<close> to the match, \<open>$`\<close> and \<open>$'\<close> to the text before and after it, and
  \<open>$n\<close>, \<open>$nn\<close> to the capture of that number when the pattern has one (\<open>m\<close> is the
  number of its groups); any other \<open>$\<close> stands for itself.
\<close>

fun getSubstitution ::
  "jstring \<Rightarrow> jstring \<Rightarrow> jstring \<Rightarrow> (nat \<Rightarrow> jstring option) \<Rightarrow> nat \<Rightarrow> jstring \<Rightarrow> jstring" where
  "getSubstitution matched preceding following caps m [] = []"
| "getSubstitution matched preceding following caps m [c] = [c]"
| "getSubstitution matched preceding following caps m (c # d # rest) =
     (if c \<noteq> 36 then c # getSubstitution matched preceding following caps m (d # rest)
      else if d = 36 then 36 # getSubstitution matched preceding following caps m rest
      else if d = 38 then matched @ getSubstitution matched preceding following caps m rest
      else if d = 96 then preceding @ getSubstitution matched preceding following caps m rest
      else if d = 39 then following @ getSubstitution matched preceding following caps m rest
      else if isDigit d then
        (case rest of
           e # rest' \<Rightarrow>
             if isDigit e \<and> 10 * (d - 48) + (e - 48) \<le> m then
               (if 1 \<le> 10 * (d - 48) + (e - 48)
                then (case caps (10 * (d - 48) + (e - 48)) of Some g \<Rightarrow> g | None \<Rightarrow> [])
                     @ getSubstitution matched preceding following caps m rest'
                else 36 # d # e # getSubstitution matched preceding following caps m rest')
             else if 1 \<le> d - 48 \<and> d - 48 \<le> m
               then (case caps (d - 48) of Some g \<Rightarrow> g | None \<Rightarrow> [])
                    @ getSubstitution matched preceding following caps m rest
               else 36 # d # getSubstitution matched preceding following caps m rest
         | [] \<Rightarrow>
             if 1 \<le> d - 48 \<and> d - 48 \<le> m
             then (case caps (d - 48) of Some g \<Rightarrow> g | None \<Rightarrow> [])
             else [36, d])
      else 36 # getSubstitution matched preceding following caps m (d # rest))"

text \<open>
  The result of \<open>replace\<close>: the text between the matches, each match replaced. A
  replacement is \<open>(start, end, text)\<close>.
\<close>

fun splice :: "jstring \<Rightarrow> nat \<Rightarrow> (nat \<times> nat \<times> jstring) list \<Rightarrow> jstring" where
  "splice tx cur [] = drop cur tx"
| "splice tx cur ((j, e, rep) # rest) = take (j - cur) (drop cur tx) @ rep @ splice tx e rest"

definition matched_text :: "jstring \<Rightarrow> nat \<times> mstate \<Rightarrow> jstring" where
  "matched_text tx m = take (m_pos (snd m) - fst m) (drop (fst m) tx)"

text \<open>\<open>tx.replace(/r/g, template)\<close>, for a pattern with \<open>m\<close> capture groups.\<close>

definition replace_all :: "bool \<Rightarrow> rx \<Rightarrow> nat \<Rightarrow> jstring \<Rightarrow> jstring \<Rightarrow> jstring" where
  "replace_all ic r m template tx =
     splice tx 0
       (map (\<lambda>mt. (fst mt, m_pos (snd mt),
                   getSubstitution (matched_text tx mt) (take (fst mt) tx)
                     (drop (m_pos (snd mt)) tx) (m_caps (snd mt)) m template))
            (matchAll_from ic r tx 0))"

text \<open>\<open>tx.replace(pattern, template)\<close> for a string pattern: the first occurrence only.\<close>

fun index_of :: "jstring \<Rightarrow> jstring \<Rightarrow> nat option" where
  "index_of [] pat = (if pat = [] then Some 0 else None)"
| "index_of (c # cs) pat =
     (if take (length pat) (c # cs) = pat then Some 0
      else map_option Suc (index_of cs pat))"

definition replace_first :: "jstring \<Rightarrow> jstring \<Rightarrow> jstring \<Rightarrow> jstring" where
  "replace_first tx pat template =
     (case index_of tx pat of
        None \<Rightarrow> tx
      | Some i \<Rightarrow>
          take i tx
          @ getSubstitution pat (take i tx) (drop (i + length pat) tx) Map.empty 0 template
          @ drop (i + length pat) tx)"

section \<open>Text normalizer\<close>

definition any_char :: rx where
  "any_char = Cls [Space, NonSpace]"

definition normalizeLatex :: "jstring \<Rightarrow> jstring" where
  "normalizeLatex tx =
     (if tx = [] then []
      else
        let s = tx;
            s = replace_all False
                  (cat [lits ([92] @ str ''[''), Grp 1 (LazyStar any_char), lits ([92] @ str '']'')])
                  1 (str ''$$$$1$$$$'') s;
            s = replace_all False
                  (cat [lits ([92] @ str ''(''), Grp 1 (LazyStar any_char), lits ([92] @ str '')'')])
                  1 (str ''$$$1$$'') s;
            s = replace_all False
                  (cat [lits ([92] @ str ''begin{align''), opt (Cls [Lit 42]), Cls [Lit 125]])
                  0 ([92] @ str ''begin{aligned}'') s;
            s = replace_all False
                  (cat [lits ([92] @ str ''end{align''), opt (Cls [Lit 42]), Cls [Lit 125]])
                  0 ([92] @ str ''end{aligned}'') s;
            s = replace_all False (atLeast3 (Cls [Lit 36])) 0 (str ''$$'') s;
            s = replace_all False (plus (Cls [Lit 32, Lit 9])) 0 (str '' '') s;
            s = replace_all False (atLeast3 (Cls [Lit 10])) 0 [10, 10] s
        in trim s)"

section \<open>Text sanitizer\<close>

text \<open>
  \<open>protectLatex\<close> is the replacement function of the two protecting passes: it appends the
  match to \<open>latexBlocks\<close> and returns the placeholder of its index. A function's result
  is inserted as it is, not read as a template.
\<close>

definition placeholder :: "nat \<Rightarrow> jstring" where
  "placeholder i = str ''__LATEX_BLOCK_'' @ showNat i @ str ''__''"

definition protect :: "rx \<Rightarrow> jstring \<times> jstring list \<Rightarrow> jstring \<times> jstring list" where
  "protect r st =
     (let tx = fst st; latexBlocks = snd st; found = matchAll_from False r tx 0
      in (splice tx 0
            (map (\<lambda>(k, mt). (fst mt, m_pos (snd mt), placeholder (length latexBlocks + k)))
                 (zip [0..<length found] found)),
          latexBlocks @ map (matched_text tx) found))"

definition restore :: "jstring \<Rightarrow> jstring list \<Rightarrow> jstring" where
  "restore tx latexBlocks =
     foldl (\<lambda>t i. replace_first t (placeholder i) (latexBlocks ! i)) tx [0..<length latexBlocks]"

definition escapeHtmlPreserveLaTeX :: "jstring \<Rightarrow> jstring" where
  "escapeHtmlPreserveLaTeX tx =
     (if tx = [] then []
      else
        let st = protect (cat [lits (str ''$$''), Grp 1 (LazyStar any_char), lits (str ''$$'')])
                   (tx, []);
            st = protect (cat [Cls [Lit 36], NegLook (Cls [Lit 36]), Grp 1 (LazyStar any_char),
                               Cls [Lit 36], NegLook (Cls [Lit 36])]) st;
            t = replace_all False (Cls [Lit 38]) 0 (str ''&amp;'') (fst st);
            t = replace_all False (Cls [Lit 60]) 0 (str ''&lt;'') t;
            t = replace_all False (Cls [Lit 62]) 0 (str ''&gt;'') t
        in restore t (snd st))"

section \<open>Data model\<close>

text \<open>
  \<open>ImageData\<close>, \<open>QuestionOption\<close>, \<open>Question\<close> and \<open>ExamData\<close> are imported by the
  parser from \<open>../types\<close>; the records below carry the fields the parser reads and writes.
  \<open>ParsedQuestion\<close>, \<open>ParagraphData\<close> and \<open>SectionInfo\<close> are declared in the parser
  itself. Question numbers are natural numbers; section offsets are integers, since the
  detector uses \<open>-1\<close> for "not found".
\<close>

record imageData =
  img_id :: jstring
  filename :: jstring
  base64 :: jstring
  contentType :: jstring
  rId :: jstring

record questionOption =
  letter :: jstring
  opt_text :: jstring

datatype questionType = multiple_choice | true_false | short_answer | writing | unknown

record parsedQuestion =
  pq_number :: nat
  globalIndex :: nat
  pq_part :: nat
  pq_type :: questionType
  pq_text :: jstring
  pq_options :: "questionOption list"
  pq_correctAnswer :: "jstring option"
  pq_solution :: jstring
  pq_images :: "imageData list"

record paragraphData =
  p_text :: jstring
  imageRIds :: "jstring list"
  hasUnderline :: bool
  underlinedSegments :: "jstring list"

record sectionRef =
  sec_letter :: jstring
  sec_name :: jstring
  sec_points :: jstring

record question =
  q_number :: nat
  q_text :: jstring
  q_type :: questionType
  q_options :: "questionOption list"
  q_correctAnswer :: "jstring option"
  q_part :: jstring
  q_images :: "imageData list"
  q_solution :: jstring
  q_section :: sectionRef

record examSection =
  s_name :: jstring
  s_description :: jstring
  s_points :: jstring
  s_questions :: "question list"
  sectionType :: questionType

record examData =
  ed_title :: jstring
  ed_timeLimit :: nat
  ed_sections :: "examSection list"
  ed_questions :: "question list"
  ed_answers :: "nat \<rightharpoonup> jstring"
  ed_images :: "imageData list"

record sectionInfo =
  part1Start :: int
  part2Start :: int
  part3Start :: int

text \<open>
  The one exception the parsing functions can raise: reading a property of \<open>undefined\<close>
  (a paragraph or an option at an index out of range).
\<close>

datatype error = TypeError

text \<open>A nullable string is falsy when it is \<open>null\<close> or empty.\<close>

definition falsy :: "jstring option \<Rightarrow> bool" where
  "falsy a = (a = None \<or> a = Some [])"

section \<open>Attaching images\<close>

text \<open>
  The body of the loop of \<open>attachImages\<close> first resolves a relationship id: by the
  asset's own \<open>rId\<close>, else by the first asset whose non-empty filename occurs in the id.
\<close>

definition resolveImage :: "imageData list \<Rightarrow> jstring \<Rightarrow> imageData option" where
  "resolveImage images r =
     (case find (\<lambda>i. rId i = r) images of
        Some img \<Rightarrow> Some img
      | None \<Rightarrow> find (\<lambda>image. filename image \<noteq> [] \<and> str_includes r (filename image)) images)"

fun attachImages :: "parsedQuestion \<Rightarrow> jstring list \<Rightarrow> imageData list \<Rightarrow> parsedQuestion" where
  "attachImages q [] images = q"
| "attachImages q (r # rs) images =
     attachImages
       (case resolveImage images r of
          None \<Rightarrow> q
        | Some img \<Rightarrow>
            if find (\<lambda>i. img_id i = img_id img) (pq_images q) = None
            then q\<lparr>pq_images := pq_images q @ [img]\<rparr>
            else q)
       rs images"

section \<open>Section boundary detector\<close>

definition part1Patterns :: "rx list" where
  "part1Patterns =
     [cat [lits (str ''PH'' @ [7846] @ str ''N''), Star ws, Cls [Lit 49]],
      cat [lits (str ''PHAN''), Star ws, Cls [Lit 49]],
      cat [lits (str ''PH'' @ [7846] @ str ''N''), plus (Cls [Space]), Cls [Lit 73], Cls [Lit 46, Space]],
      cat [lits (str ''Ph'' @ [7847] @ str ''n''), Star ws, Cls [Lit 49]],
      cat [lits (str ''I.''), Star ws, lits (str ''TR'' @ [7854] @ str ''C''), Star ws,
           lits (str ''NGHI'' @ [7878] @ str ''M'')],
      cat [lits (str ''I.''), Star ws, lits (str ''TRAC''), Star ws, lits (str ''NGHIEM'')]]"

definition part2Patterns :: "rx list" where
  "part2Patterns =
     [cat [lits (str ''PH'' @ [7846] @ str ''N''), Star ws, Cls [Lit 50]],
      cat [lits (str ''PHAN''), Star ws, Cls [Lit 50]],
      cat [lits (str ''PH'' @ [7846] @ str ''N''), plus (Cls [Space]), lits (str ''II''), Cls [Lit 46, Space]],
      cat [lits (str ''Ph'' @ [7847] @ str ''n''), Star ws, Cls [Lit 50]],
      cat [lits (str ''II.''), Star ws, lits ([272, 218] @ str ''NG''), Star ws, lits (str ''SAI'')],
      cat [lits (str ''II.''), Star ws, lits (str ''DUNG''), Star ws, lits (str ''SAI'')],
      cat [lits ([272, 218] @ str ''NG''), Star ws, lits (str ''SAI'')],
      cat [lits (str ''DUNG''), Star ws, lits (str ''SAI'')]]"

definition part3Patterns :: "rx list" where
  "part3Patterns =
     [cat [lits (str ''PH'' @ [7846] @ str ''N''), Star ws, Cls [Lit 51]],
      cat [lits (str ''PHAN''), Star ws, Cls [Lit 51]],
      cat [lits (str ''PH'' @ [7846] @ str ''N''), plus (Cls [Space]), lits (str ''III''), Cls [Lit 46, Space]],
      cat [lits (str ''Ph'' @ [7847] @ str ''n''), Star ws, Cls [Lit 51]],
      cat [lits (str ''III.''), Star ws, lits (str ''TR'' @ [7842]), Star ws,
           lits (str ''L'' @ [7900] @ str ''I'')],
      cat [lits (str ''III.''), Star ws, lits (str ''TRA''), Star ws, lits (str ''LOI'')],
      cat [lits (str ''TR'' @ [7842]), Star ws, lits (str ''L'' @ [7900] @ str ''I''), Star ws,
           lits (str ''NG'' @ [7854] @ str ''N'')],
      cat [lits (str ''TRA''), Star ws, lits (str ''LOI''), Star ws, lits (str ''NGAN'')]]"

text \<open>
  The inner loop over a pattern list: some pattern of the list matches. Every pattern of
  the three lists has the \<open>i\<close> flag.
\<close>

definition matches_any :: "rx list \<Rightarrow> jstring \<Rightarrow> bool" where
  "matches_any patterns tx = list_ex (\<lambda>pattern. rx_test True pattern tx) patterns"

text \<open>One round of the scan, at paragraph index \<open>i\<close>.\<close>

definition detect_step :: "int \<Rightarrow> jstring \<Rightarrow> sectionInfo \<Rightarrow> sectionInfo" where
  "detect_step i tx info =
     (let info = (if part1Start info = -1 \<and> matches_any part1Patterns tx
                  then info\<lparr>part1Start := i\<rparr> else info);
          info = (if part2Start info = -1 \<and> i > part1Start info \<and> matches_any part2Patterns tx
                  then info\<lparr>part2Start := i\<rparr> else info);
          info = (if part3Start info = -1 \<and> i > max (part1Start info) (part2Start info)
                     \<and> matches_any part3Patterns tx
                  then info\<lparr>part3Start := i\<rparr> else info)
      in info)"

fun detect_loop :: "paragraphData list \<Rightarrow> int \<Rightarrow> sectionInfo \<Rightarrow> sectionInfo" where
  "detect_loop [] i info = info"
| "detect_loop (p # ps) i info = detect_loop ps (i + 1) (detect_step i (p_text p) info)"

definition detectSections :: "jstring \<Rightarrow> paragraphData list \<Rightarrow> sectionInfo" where
  "detectSections fullText paragraphs =
     (let info = detect_loop paragraphs 0 \<lparr>part1Start = -1, part2Start = -1, part3Start = -1\<rparr>;
          info = (if part1Start info = -1 then info\<lparr>part1Start := 0\<rparr> else info);
          info = (if part2Start info = -1 then info\<lparr>part2Start := int (length paragraphs)\<rparr>
                  else info);
          info = (if part3Start info = -1 then info\<lparr>part3Start := int (length paragraphs)\<rparr>
                  else info)
      in info)"

section \<open>Patterns of the section parsers\<close>

text \<open>All have the \<open>i\<close> flag, except \<open>questionStart\<close> of the short-answer parser.\<close>

definition questionPattern :: rx where
  "questionPattern =
     cat [Bol, Cls [Lit 67], Alt (lits ([226] @ str ''u'')) (lits (str ''au'')), Star ws,
          Grp 1 (plus (Cls [Digit])), Star ws, Cls [Lit 46, Lit 58], Star ws, Grp 2 (Star Dot)]"

definition optionPattern :: rx where
  "optionPattern =
     cat [Bol, Star ws, Grp 1 (Cls [Rng 65 68]), Star ws, Cls [Lit 46, Lit 41], Star ws,
          Grp 2 (Star Dot)]"

definition answerPattern :: rx where
  "answerPattern =
     cat [lits (str ''Ch''), Alt (lits ([7885] @ str ''n'')) (lits (str ''on'')), Star ws,
          Grp 1 (Cls [Rng 65 68])]"

definition statementPattern :: rx where
  "statementPattern =
     cat [Bol, Star ws, Grp 1 (Cls [Rng 97 100]), Star ws, Cls [Lit 41, Lit 46], Star ws,
          Grp 2 (Star Dot)]"

definition answerPattern3 :: rx where
  "answerPattern3 =
     cat [Bol, Star (Cls [Lit 42, Space]), Alt (Cls [Lit 272]) (Cls [Lit 68]),
          lits ([225] @ str ''p''), Star ws, Alt (lits ([225] @ str ''n'')) (lits (str ''an'')),
          Star (Cls [Lit 58, Space]), Grp 1 (plus Dot)]"

definition solutionPattern :: rx where
  "solutionPattern =
     cat [Bol, Cls [Lit 76], Alt (lits ([7901] @ str ''i'')) (lits (str ''oi'')), Star ws,
          lits (str ''gi''), Alt (lits ([7843] @ str ''i'')) (lits (str ''ai''))]"

definition figurePattern :: rx where
  "figurePattern =
     cat [Bol, Cls [Lit 72], Alt (lits ([236] @ str ''nh'')) (lits (str ''inh'')), Star ws,
          plus (Cls [Digit])]"

definition singleLetterPattern :: rx where
  "singleLetterPattern = cat [Bol, Cls [Rng 65 68], Eol]"

definition questionStart :: rx where
  "questionStart =
     cat [Bol, Cls [Lit 67], Alt (lits ([226] @ str ''u'')) (lits (str ''au'')), Star ws,
          plus (Cls [Digit])]"

definition partHeader :: "jstring \<Rightarrow> bool" where
  "partHeader tx =
     (rx_test True (cat [lits (str ''PH'' @ [7846] @ str ''N''), Star ws, Cls [Digit]]) tx
      \<or> rx_test True (cat [lits (str ''PHAN''), Star ws, Cls [Digit]]) tx)"

definition sectionHeader1 :: "jstring \<Rightarrow> bool" where
  "sectionHeader1 tx =
     (partHeader tx
      \<or> rx_test True (cat [lits (str ''Tr'' @ [7855] @ str ''c''), Star ws,
                          lits (str ''nghi'' @ [7879] @ str ''m'')]) tx
      \<or> rx_test True (cat [lits (str ''Trac''), Star ws, lits (str ''nghiem'')]) tx)"

definition isFigure :: "jstring \<Rightarrow> bool" where
  "isFigure tx = rx_test True figurePattern tx"

text \<open>The object a question line creates.\<close>

definition newQuestion :: "nat \<Rightarrow> nat \<Rightarrow> questionType \<Rightarrow> parsedQuestion" where
  "newQuestion qNum part ty =
     \<lparr>pq_number = qNum, globalIndex = 0, pq_part = part, pq_type = ty, pq_text = [],
      pq_options = [], pq_correctAnswer = None, pq_solution = [], pq_images = []\<rparr>"

definition attachIfAny :: "parsedQuestion \<Rightarrow> jstring list \<Rightarrow> imageData list \<Rightarrow> parsedQuestion" where
  "attachIfAny q rids images = (if rids \<noteq> [] then attachImages q rids images else q)"

definition sortByNumber :: "parsedQuestion list \<Rightarrow> parsedQuestion list" where
  "sortByNumber qs = sort_key pq_number qs"

text \<open>The paragraphs the loop \<open>for (i = startIdx; i < endIdx; i++)\<close> visits.\<close>

definition slice :: "paragraphData list \<Rightarrow> int \<Rightarrow> int \<Rightarrow> paragraphData list" where
  "slice paragraphs startIdx endIdx = take (nat (endIdx - startIdx)) (drop (nat startIdx) paragraphs)"

section \<open>Section 1: multiple choice\<close>

record p1state =
  p1_questions :: "parsedQuestion list"
  p1_currentQ :: "parsedQuestion option"
  p1_collectingContent :: bool
  p1_contentBuffer :: "jstring list"
  p1_inSolution :: bool
  p1_solutionBuffer :: "jstring list"
  p1_underlinedLetters :: "jstring list"
  p1_currentOptionIndex :: int
  p1_startedOptions :: bool

definition p1_init :: p1state where
  "p1_init =
     \<lparr>p1_questions = [], p1_currentQ = None, p1_collectingContent = False,
      p1_contentBuffer = [], p1_inSolution = False, p1_solutionBuffer = [],
      p1_underlinedLetters = [], p1_currentOptionIndex = -1, p1_startedOptions = False\<rparr>"

text \<open>
  The flush of the question in progress, written twice in the source (before a new
  question and after the loop): stem and solution from their buffers, the answer from the
  underlined letters when none was set, and the question kept when its stem is not empty.
\<close>

definition p1_finalize :: "p1state \<Rightarrow> parsedQuestion \<Rightarrow> parsedQuestion" where
  "p1_finalize st q =
     (let q = (if p1_contentBuffer st \<noteq> [] \<and> pq_text q = []
               then q\<lparr>pq_text := trim (join (str '' '') (p1_contentBuffer st))\<rparr> else q);
          q = (if p1_solutionBuffer st \<noteq> []
               then q\<lparr>pq_solution := trim (join (str '' '') (p1_solutionBuffer st))\<rparr> else q);
          q = (if falsy (pq_correctAnswer q) \<and> p1_underlinedLetters st \<noteq> [] then
                 (case find (\<lambda>l. rx_test True singleLetterPattern l) (p1_underlinedLetters st) of
                    Some underlinedAnswer \<Rightarrow>
                      if underlinedAnswer \<noteq> []
                      then q\<lparr>pq_correctAnswer := Some (toUpperCase underlinedAnswer)\<rparr> else q
                  | None \<Rightarrow> q)
               else q)
      in q)"

definition p1_flush :: "p1state \<Rightarrow> parsedQuestion list" where
  "p1_flush st =
     (case p1_currentQ st of
        None \<Rightarrow> p1_questions st
      | Some q \<Rightarrow>
          if pq_text (p1_finalize st q) \<noteq> [] then p1_questions st @ [p1_finalize st q]
          else p1_questions st)"

text \<open>A question line.\<close>

definition p1_question :: "imageData list \<Rightarrow> p1state \<Rightarrow> paragraphData \<Rightarrow> nat \<times> mstate \<Rightarrow> p1state" where
  "p1_question images st para qMatch =
     (let qNum = parseInt (group qMatch 1);
          restText = trim (group qMatch 2);
          currentQ = newQuestion qNum 1 multiple_choice
      in \<lparr>p1_questions = p1_flush st,
          p1_currentQ = Some (attachIfAny currentQ (imageRIds para) images),
          p1_collectingContent = True,
          p1_contentBuffer = (if restText \<noteq> [] then [restText] else []),
          p1_inSolution = False,
          p1_solutionBuffer = [],
          p1_underlinedLetters = (if hasUnderline para then underlinedSegments para else []),
          p1_currentOptionIndex = -1,
          p1_startedOptions = False\<rparr>)"

text \<open>The solution marker.\<close>

definition p1_solution :: "p1state \<Rightarrow> parsedQuestion \<Rightarrow> p1state" where
  "p1_solution st q =
     (let st = (if p1_contentBuffer st \<noteq> [] \<and> pq_text q = []
                then st\<lparr>p1_currentQ := Some (q\<lparr>pq_text := trim (join (str '' '') (p1_contentBuffer st))\<rparr>),
                        p1_contentBuffer := []\<rparr>
                else st)
      in st\<lparr>p1_collectingContent := False, p1_inSolution := True, p1_solutionBuffer := []\<rparr>)"

text \<open>An option line, while content is collected.\<close>

definition p1_option :: "p1state \<Rightarrow> parsedQuestion \<Rightarrow> paragraphData \<Rightarrow> nat \<times> mstate \<Rightarrow> p1state" where
  "p1_option st q para optMatch =
     (let flushStem = (pq_options q = [] \<and> p1_contentBuffer st \<noteq> []);
          q = (if flushStem then q\<lparr>pq_text := trim (join (str '' '') (p1_contentBuffer st))\<rparr> else q);
          l = toUpperCase (group optMatch 1);
          optText = trim (group optMatch 2);
          q = q\<lparr>pq_options := pq_options q @ [\<lparr>letter = l, opt_text = optText\<rparr>]\<rparr>
      in st\<lparr>p1_currentQ := Some q,
            p1_contentBuffer := (if flushStem then [] else p1_contentBuffer st),
            p1_currentOptionIndex := int (length (pq_options q)) - 1,
            p1_startedOptions := True,
            p1_underlinedLetters :=
              (if hasUnderline para then p1_underlinedLetters st @ [l] else p1_underlinedLetters st)\<rparr>)"

text \<open>The end of the loop body: the solution buffer, then the images.\<close>

definition p1_rest :: "imageData list \<Rightarrow> p1state \<Rightarrow> parsedQuestion \<Rightarrow> paragraphData \<Rightarrow> p1state" where
  "p1_rest images st q para =
     (let st = (if p1_inSolution st \<and> p_text para \<noteq> [] \<and> \<not> isFigure (p_text para)
                then st\<lparr>p1_solutionBuffer := p1_solutionBuffer st @ [p_text para]\<rparr> else st)
      in if imageRIds para \<noteq> [] \<and> \<not> p1_inSolution st
         then st\<lparr>p1_currentQ := Some (attachImages q (imageRIds para) images)\<rparr> else st)"

text \<open>
  A paragraph that is no marker and no option: the continuation of the last option, or
  a stem fragment, or solution text.
\<close>

definition p1_other :: "imageData list \<Rightarrow> p1state \<Rightarrow> parsedQuestion \<Rightarrow> paragraphData \<Rightarrow> error + p1state" where
  "p1_other images st q para =
     (if p1_collectingContent st \<and> p1_startedOptions st \<and> 0 \<le> p1_currentOptionIndex st
         \<and> p_text para \<noteq> [] \<and> \<not> p1_inSolution st then
        (if \<not> isFigure (p_text para) then
           (if nat (p1_currentOptionIndex st) < length (pq_options q) then
              (let i = nat (p1_currentOptionIndex st);
                   opt = pq_options q ! i;
                   q = q\<lparr>pq_options :=
                          (pq_options q)[i := opt\<lparr>opt_text := trim (opt_text opt @ str '' '' @ p_text para)\<rparr>]\<rparr>
               in Inr (st\<lparr>p1_currentQ := Some (attachIfAny q (imageRIds para) images),
                          p1_underlinedLetters :=
                            (if hasUnderline para then p1_underlinedLetters st @ [letter opt]
                             else p1_underlinedLetters st)\<rparr>))
            else Inl TypeError)
         else Inr (st\<lparr>p1_currentQ := Some (attachIfAny q (imageRIds para) images)\<rparr>))
      else if p1_collectingContent st \<and> p_text para \<noteq> [] \<and> \<not> p1_inSolution st
              \<and> \<not> p1_startedOptions st then
        (if isFigure (p_text para)
         then Inr (st\<lparr>p1_currentQ := Some (attachIfAny q (imageRIds para) images)\<rparr>)
         else Inr (p1_rest images
                     (st\<lparr>p1_contentBuffer := p1_contentBuffer st @ [p_text para],
                         p1_underlinedLetters :=
                           (if hasUnderline para
                            then p1_underlinedLetters st @ underlinedSegments para
                            else p1_underlinedLetters st)\<rparr>)
                     q para))
      else Inr (p1_rest images st q para))"

definition p1_step :: "imageData list \<Rightarrow> p1state \<Rightarrow> paragraphData \<Rightarrow> error + p1state" where
  "p1_step images st para =
     (if p_text para = [] \<and> imageRIds para = [] then Inr st
      else if sectionHeader1 (p_text para) then Inr st
      else case rx_exec True questionPattern (p_text para) of
        Some qMatch \<Rightarrow> Inr (p1_question images st para qMatch)
      | None \<Rightarrow>
          (case p1_currentQ st of
             None \<Rightarrow> Inr st
           | Some q \<Rightarrow>
               if rx_test True solutionPattern (p_text para) then Inr (p1_solution st q)
               else case rx_exec True answerPattern (p_text para) of
                 Some chonMatch \<Rightarrow>
                   Inr (st\<lparr>p1_currentQ :=
                             Some (q\<lparr>pq_correctAnswer := Some (toUpperCase (group chonMatch 1))\<rparr>)\<rparr>)
               | None \<Rightarrow>
                   (case rx_exec True optionPattern (p_text para) of
                      Some optMatch \<Rightarrow>
                        if p1_collectingContent st then Inr (p1_option st q para optMatch)
                        else p1_other images st q para
                    | None \<Rightarrow> p1_other images st q para)))"

fun p1_loop :: "imageData list \<Rightarrow> p1state \<Rightarrow> paragraphData list \<Rightarrow> error + p1state" where
  "p1_loop images st [] = Inr st"
| "p1_loop images st (para # rest) =
     (case p1_step images st para of
        Inl e \<Rightarrow> Inl e
      | Inr st' \<Rightarrow> p1_loop images st' rest)"

definition parsePart1WithUnderline ::
  "paragraphData list \<Rightarrow> int \<Rightarrow> int \<Rightarrow> imageData list \<Rightarrow> error + parsedQuestion list" where
  "parsePart1WithUnderline paragraphs startIdx endIdx images =
     (if startIdx < 0 \<or> endIdx \<le> startIdx then Inr []
      else if int (length paragraphs) < endIdx then Inl TypeError
      else case p1_loop images p1_init (slice paragraphs startIdx endIdx) of
             Inl e \<Rightarrow> Inl e
           | Inr st \<Rightarrow> Inr (sortByNumber (p1_flush st)))"

section \<open>Section 2: true/false statements\<close>

record p2state =
  p2_questions :: "parsedQuestion list"
  p2_currentQ :: "parsedQuestion option"
  p2_collectingContent :: bool
  p2_contentBuffer :: "jstring list"
  p2_inSolution :: bool
  p2_solutionBuffer :: "jstring list"
  p2_trueStatements :: "jstring list"
  p2_currentStmtIndex :: int
  p2_startedStatements :: bool

definition p2_init :: p2state where
  "p2_init =
     \<lparr>p2_questions = [], p2_currentQ = None, p2_collectingContent = False,
      p2_contentBuffer = [], p2_inSolution = False, p2_solutionBuffer = [],
      p2_trueStatements = [], p2_currentStmtIndex = -1, p2_startedStatements = False\<rparr>"

text \<open>
  \<open>currentQuestionTrueStatements\<close> is a \<open>Set\<close>: its elements in insertion order, none
  twice. \<open>Array.from(set).sort()\<close> sorts them as strings, by code units.
\<close>

definition set_add :: "jstring \<Rightarrow> jstring list \<Rightarrow> jstring list" where
  "set_add x xs = (if x \<in> set xs then xs else xs @ [x])"

definition p2_finalize :: "p2state \<Rightarrow> parsedQuestion \<Rightarrow> parsedQuestion" where
  "p2_finalize st q =
     (let q = (if p2_contentBuffer st \<noteq> [] \<and> pq_text q = []
               then q\<lparr>pq_text := trim (join (str '' '') (p2_contentBuffer st))\<rparr> else q);
          q = (if p2_solutionBuffer st \<noteq> []
               then q\<lparr>pq_solution := trim (join (str '' '') (p2_solutionBuffer st))\<rparr> else q);
          q = (if falsy (pq_correctAnswer q) \<and> p2_trueStatements st \<noteq> []
               then q\<lparr>pq_correctAnswer := Some (join (str '','') (sort (p2_trueStatements st)))\<rparr>
               else q)
      in q)"

definition p2_flush :: "p2state \<Rightarrow> parsedQuestion list" where
  "p2_flush st =
     (case p2_currentQ st of
        None \<Rightarrow> p2_questions st
      | Some q \<Rightarrow>
          if pq_text (p2_finalize st q) \<noteq> [] then p2_questions st @ [p2_finalize st q]
          else p2_questions st)"

definition p2_question :: "imageData list \<Rightarrow> p2state \<Rightarrow> paragraphData \<Rightarrow> nat \<times> mstate \<Rightarrow> p2state" where
  "p2_question images st para qMatch =
     (let qNum = parseInt (group qMatch 1);
          restText = trim (group qMatch 2);
          currentQ = newQuestion qNum 2 true_false
      in \<lparr>p2_questions = p2_flush st,
          p2_currentQ = Some (attachIfAny currentQ (imageRIds para) images),
          p2_collectingContent = True,
          p2_contentBuffer = (if restText \<noteq> [] then [restText] else []),
          p2_inSolution = False,
          p2_solutionBuffer = [],
          p2_trueStatements = [],
          p2_currentStmtIndex = -1,
          p2_startedStatements = False\<rparr>)"

definition p2_solution :: "p2state \<Rightarrow> parsedQuestion \<Rightarrow> p2state" where
  "p2_solution st q =
     (let st = (if p2_contentBuffer st \<noteq> [] \<and> pq_text q = []
                then st\<lparr>p2_currentQ := Some (q\<lparr>pq_text := trim (join (str '' '') (p2_contentBuffer st))\<rparr>),
                        p2_contentBuffer := []\<rparr>
                else st)
      in st\<lparr>p2_collectingContent := False, p2_inSolution := True, p2_solutionBuffer := []\<rparr>)"

definition p2_statement :: "p2state \<Rightarrow> parsedQuestion \<Rightarrow> paragraphData \<Rightarrow> nat \<times> mstate \<Rightarrow> p2state" where
  "p2_statement st q para stmtMatch =
     (let flushStem = (pq_options q = [] \<and> p2_contentBuffer st \<noteq> []);
          q = (if flushStem then q\<lparr>pq_text := trim (join (str '' '') (p2_contentBuffer st))\<rparr> else q);
          l = toLowerCase (group stmtMatch 1);
          stmtText = trim (group stmtMatch 2);
          q = q\<lparr>pq_options := pq_options q @ [\<lparr>letter = l, opt_text = stmtText\<rparr>]\<rparr>
      in st\<lparr>p2_currentQ := Some q,
            p2_contentBuffer := (if flushStem then [] else p2_contentBuffer st),
            p2_currentStmtIndex := int (length (pq_options q)) - 1,
            p2_startedStatements := True,
            p2_trueStatements :=
              (if hasUnderline para then set_add l (p2_trueStatements st) else p2_trueStatements st)\<rparr>)"

definition p2_rest :: "imageData list \<Rightarrow> p2state \<Rightarrow> parsedQuestion \<Rightarrow> paragraphData \<Rightarrow> p2state" where
  "p2_rest images st q para =
     (let st = (if p2_inSolution st \<and> p_text para \<noteq> [] \<and> \<not> isFigure (p_text para)
                then st\<lparr>p2_solutionBuffer := p2_solutionBuffer st @ [p_text para]\<rparr> else st)
      in if imageRIds para \<noteq> [] \<and> \<not> p2_inSolution st
         then st\<lparr>p2_currentQ := Some (attachImages q (imageRIds para) images)\<rparr> else st)"

definition p2_other :: "imageData list \<Rightarrow> p2state \<Rightarrow> parsedQuestion \<Rightarrow> paragraphData \<Rightarrow> error + p2state" where
  "p2_other images st q para =
     (if p2_collectingContent st \<and> p2_startedStatements st \<and> 0 \<le> p2_currentStmtIndex st
         \<and> p_text para \<noteq> [] \<and> \<not> p2_inSolution st then
        (if \<not> isFigure (p_text para) then
           (if nat (p2_currentStmtIndex st) < length (pq_options q) then
              (let i = nat (p2_currentStmtIndex st);
                   opt = pq_options q ! i;
                   q = q\<lparr>pq_options :=
                          (pq_options q)[i := opt\<lparr>opt_text := trim (opt_text opt @ str '' '' @ p_text para)\<rparr>]\<rparr>
               in Inr (st\<lparr>p2_currentQ := Some (attachIfAny q (imageRIds para) images),
                          p2_trueStatements :=
                            (if hasUnderline para
                             then set_add (toLowerCase (letter opt)) (p2_trueStatements st)
                             else p2_trueStatements st)\<rparr>))
            else Inl TypeError)
         else Inr (st\<lparr>p2_currentQ := Some (attachIfAny q (imageRIds para) images)\<rparr>))
      else if p2_collectingContent st \<and> p_text para \<noteq> [] \<and> \<not> p2_inSolution st
              \<and> \<not> p2_startedStatements st then
        (if isFigure (p_text para)
         then Inr (st\<lparr>p2_currentQ := Some (attachIfAny q (imageRIds para) images)\<rparr>)
         else Inr (p2_rest images
                     (st\<lparr>p2_contentBuffer := p2_contentBuffer st @ [p_text para]\<rparr>) q para))
      else Inr (p2_rest images st q para))"

definition p2_step :: "imageData list \<Rightarrow> p2state \<Rightarrow> paragraphData \<Rightarrow> error + p2state" where
  "p2_step images st para =
     (if p_text para = [] \<and> imageRIds para = [] then Inr st
      else if partHeader (p_text para) then Inr st
      else case rx_exec True questionPattern (p_text para) of
        Some qMatch \<Rightarrow> Inr (p2_question images st para qMatch)
      | None \<Rightarrow>
          (case p2_currentQ st of
             None \<Rightarrow> Inr st
           | Some q \<Rightarrow>
               if rx_test True solutionPattern (p_text para) then Inr (p2_solution st q)
               else case rx_exec True statementPattern (p_text para) of
                      Some stmtMatch \<Rightarrow>
                        if p2_collectingContent st then Inr (p2_statement st q para stmtMatch)
                        else p2_other images st q para
                    | None \<Rightarrow> p2_other images st q para))"

fun p2_loop :: "imageData list \<Rightarrow> p2state \<Rightarrow> paragraphData list \<Rightarrow> error + p2state" where
  "p2_loop images st [] = Inr st"
| "p2_loop images st (para # rest) =
     (case p2_step images st para of
        Inl e \<Rightarrow> Inl e
      | Inr st' \<Rightarrow> p2_loop images st' rest)"

definition parsePart2 ::
  "paragraphData list \<Rightarrow> int \<Rightarrow> int \<Rightarrow> imageData list \<Rightarrow> error + parsedQuestion list" where
  "parsePart2 paragraphs startIdx endIdx images =
     (if startIdx < 0 \<or> endIdx \<le> startIdx \<or> int (length paragraphs) \<le> startIdx then Inr []
      else if int (length paragraphs) < endIdx then Inl TypeError
      else case p2_loop images p2_init (slice paragraphs startIdx endIdx) of
             Inl e \<Rightarrow> Inl e
           | Inr st \<Rightarrow> Inr (sortByNumber (p2_flush st)))"

section \<open>Section 3: short answer\<close>

record p3state =
  p3_questions :: "parsedQuestion list"
  p3_currentQ :: "parsedQuestion option"
  p3_collectingContent :: bool
  p3_contentBuffer :: "jstring list"
  p3_solutionBuffer :: "jstring list"

definition p3_init :: p3state where
  "p3_init =
     \<lparr>p3_questions = [], p3_currentQ = None, p3_collectingContent = False,
      p3_contentBuffer = [], p3_solutionBuffer = []\<rparr>"

definition p3_finalize :: "p3state \<Rightarrow> parsedQuestion \<Rightarrow> parsedQuestion" where
  "p3_finalize st q =
     (let q = (if p3_contentBuffer st \<noteq> []
               then q\<lparr>pq_text := trim (join (str '' '') (p3_contentBuffer st))\<rparr> else q);
          q = (if p3_solutionBuffer st \<noteq> []
               then q\<lparr>pq_solution := trim (join (str '' '') (p3_solutionBuffer st))\<rparr> else q)
      in q)"

definition p3_flush :: "p3state \<Rightarrow> parsedQuestion list" where
  "p3_flush st =
     (case p3_currentQ st of
        None \<Rightarrow> p3_questions st
      | Some q \<Rightarrow>
          if pq_text (p3_finalize st q) \<noteq> [] then p3_questions st @ [p3_finalize st q]
          else p3_questions st)"

definition p3_question :: "imageData list \<Rightarrow> p3state \<Rightarrow> paragraphData \<Rightarrow> nat \<times> mstate \<Rightarrow> p3state" where
  "p3_question images st para qMatch =
     (let qNum = parseInt (group qMatch 1);
          restText = trim (group qMatch 2);
          currentQ = newQuestion qNum 3 short_answer
      in \<lparr>p3_questions = p3_flush st,
          p3_currentQ = Some (attachIfAny currentQ (imageRIds para) images),
          p3_collectingContent = True,
          p3_contentBuffer = (if restText \<noteq> [] then [restText] else []),
          p3_solutionBuffer = []\<rparr>)"

definition p3_solution :: "p3state \<Rightarrow> parsedQuestion \<Rightarrow> p3state" where
  "p3_solution st q =
     (let st = (if p3_contentBuffer st \<noteq> []
                then st\<lparr>p3_currentQ := Some (q\<lparr>pq_text := trim (join (str '' '') (p3_contentBuffer st))\<rparr>),
                        p3_contentBuffer := []\<rparr>
                else st)
      in st\<lparr>p3_collectingContent := False, p3_solutionBuffer := []\<rparr>)"

definition p3_other :: "imageData list \<Rightarrow> p3state \<Rightarrow> parsedQuestion \<Rightarrow> paragraphData \<Rightarrow> p3state" where
  "p3_other images st q para =
     (if p3_collectingContent st \<and> p_text para \<noteq> [] \<and> isFigure (p_text para)
      then st\<lparr>p3_currentQ := Some (attachIfAny q (imageRIds para) images)\<rparr>
      else
        let st = (if p3_collectingContent st \<and> p_text para \<noteq> []
                  then st\<lparr>p3_contentBuffer := p3_contentBuffer st @ [p_text para]\<rparr> else st);
            st = (if \<not> p3_collectingContent st \<and> p_text para \<noteq> []
                     \<and> \<not> rx_test False questionStart (p_text para)
                     \<and> \<not> isFigure (p_text para) \<and> \<not> rx_test True answerPattern3 (p_text para)
                  then st\<lparr>p3_solutionBuffer := p3_solutionBuffer st @ [p_text para]\<rparr> else st)
        in if imageRIds para \<noteq> []
           then st\<lparr>p3_currentQ := Some (attachImages q (imageRIds para) images)\<rparr> else st)"

definition p3_step :: "imageData list \<Rightarrow> p3state \<Rightarrow> paragraphData \<Rightarrow> p3state" where
  "p3_step images st para =
     (if p_text para = [] \<and> imageRIds para = [] then st
      else if partHeader (p_text para) then st
      else case rx_exec True questionPattern (p_text para) of
        Some qMatch \<Rightarrow> p3_question images st para qMatch
      | None \<Rightarrow>
          (case p3_currentQ st of
             None \<Rightarrow> st
           | Some q \<Rightarrow>
               if rx_test True solutionPattern (p_text para) then p3_solution st q
               else case rx_exec True answerPattern3 (p_text para) of
                      Some ansMatch \<Rightarrow>
                        st\<lparr>p3_currentQ := Some (q\<lparr>pq_correctAnswer := Some (trim (group ansMatch 1))\<rparr>)\<rparr>
                    | None \<Rightarrow> p3_other images st q para))"

definition parsePart3 ::
  "paragraphData list \<Rightarrow> int \<Rightarrow> int \<Rightarrow> imageData list \<Rightarrow> error + parsedQuestion list" where
  "parsePart3 paragraphs startIdx endIdx images =
     (if startIdx < 0 \<or> int (length paragraphs) \<le> startIdx then Inr []
      else if int (length paragraphs) < endIdx then Inl TypeError
      else Inr (sortByNumber (p3_flush
                  (foldl (p3_step images) p3_init (slice paragraphs startIdx endIdx)))))"

section \<open>Assembler\<close>

definition getPartName :: "nat \<Rightarrow> jstring" where
  "getPartName part =
     (if part = 1 then str ''Tr'' @ [7855] @ str ''c nghi'' @ [7879] @ str ''m nhi'' @ [7873]
                       @ str ''u l'' @ [7921] @ str ''a ch'' @ [7885] @ str ''n''
      else if part = 2 then str ''Tr'' @ [7855] @ str ''c nghi'' @ [7879] @ str ''m '' @ [273, 250]
                            @ str ''ng sai''
      else if part = 3 then str ''Tr'' @ [7855] @ str ''c nghi'' @ [7879] @ str ''m tr'' @ [7843]
                            @ str '' l'' @ [7901] @ str ''i ng'' @ [7855] @ str ''n''
      else [])"

definition convertToQuestion :: "parsedQuestion \<Rightarrow> nat \<Rightarrow> question" where
  "convertToQuestion pq gIndex =
     (let uniqueNumber = pq_part pq * 100 + pq_number pq
      in \<lparr>q_number = uniqueNumber,
          q_text = escapeHtmlPreserveLaTeX (pq_text pq),
          q_type = pq_type pq,
          q_options = map (\<lambda>opt. opt\<lparr>opt_text := escapeHtmlPreserveLaTeX (opt_text opt)\<rparr>)
                          (pq_options pq),
          q_correctAnswer = pq_correctAnswer pq,
          q_part = str ''PH'' @ [7846] @ str ''N '' @ showNat (pq_part pq),
          q_images = pq_images pq,
          q_solution = pq_solution pq,
          q_section = \<lparr>sec_letter = showNat (pq_part pq), sec_name = getPartName (pq_part pq),
                       sec_points = []\<rparr>\<rparr>)"

text \<open>
  The bodies of the three loops of \<open>parseAllQuestions\<close> over the parsed questions of a
  section. The accumulator is the exam, the questions of the section so far and
  \<open>globalIndex\<close>. The loops of sections 1 and 3 record the answer; the loop of section 2
  does not.
\<close>

definition add_answered :: "examData \<times> question list \<times> nat \<Rightarrow> parsedQuestion \<Rightarrow> examData \<times> question list \<times> nat" where
  "add_answered acc pq =
     (case acc of (ed, sectionQuestions, gIndex) \<Rightarrow>
        let q = convertToQuestion pq gIndex;
            ed = ed\<lparr>ed_questions := ed_questions ed @ [q]\<rparr>;
            ed = (if \<not> falsy (q_correctAnswer q)
                  then ed\<lparr>ed_answers := (ed_answers ed)(q_number q := q_correctAnswer q)\<rparr>
                  else ed)
        in (ed, sectionQuestions @ [q], gIndex + 1))"

definition add_unanswered :: "examData \<times> question list \<times> nat \<Rightarrow> parsedQuestion \<Rightarrow> examData \<times> question list \<times> nat" where
  "add_unanswered acc pq =
     (case acc of (ed, sectionQuestions, gIndex) \<Rightarrow>
        let q = convertToQuestion pq gIndex;
            ed = ed\<lparr>ed_questions := ed_questions ed @ [q]\<rparr>
        in (ed, sectionQuestions @ [q], gIndex + 1))"

definition add_section ::
  "(examData \<times> question list \<times> nat \<Rightarrow> parsedQuestion \<Rightarrow> examData \<times> question list \<times> nat) \<Rightarrow>
   jstring \<Rightarrow> jstring \<Rightarrow> questionType \<Rightarrow> parsedQuestion list \<Rightarrow> examData \<times> nat \<Rightarrow> examData \<times> nat" where
  "add_section body name description ty pqs acc =
     (if pqs \<noteq> [] then
        (case foldl body (fst acc, [], snd acc) pqs of
           (ed, sectionQuestions, gIndex) \<Rightarrow>
             (ed\<lparr>ed_sections := ed_sections ed @
                    [\<lparr>s_name = name, s_description = description, s_points = [],
                      s_questions = sectionQuestions, sectionType = ty\<rparr>]\<rparr>,
              gIndex))
      else acc)"

definition assemble :: "parsedQuestion list \<Rightarrow> parsedQuestion list \<Rightarrow> parsedQuestion list \<Rightarrow> examData" where
  "assemble part1Questions part2Questions part3Questions =
     (let acc = (\<lparr>ed_title = [], ed_timeLimit = 90, ed_sections = [], ed_questions = [],
                  ed_answers = Map.empty, ed_images = []\<rparr>, 0);
          acc = add_section add_answered
                  (str ''PH'' @ [7846] @ str ''N 1. Tr'' @ [7855] @ str ''c nghi'' @ [7879]
                   @ str ''m nhi'' @ [7873] @ str ''u l'' @ [7921] @ str ''a ch'' @ [7885] @ str ''n'')
                  (str ''Th'' @ [237] @ str '' sinh ch'' @ [7885] @ str ''n m'' @ [7897]
                   @ str ''t ph'' @ [432, 417] @ str ''ng '' @ [225] @ str ''n '' @ [273, 250]
                   @ str ''ng A, B, C ho'' @ [7863] @ str ''c D'')
                  multiple_choice part1Questions acc;
          acc = add_section add_unanswered
                  (str ''PH'' @ [7846] @ str ''N 2. Tr'' @ [7855] @ str ''c nghi'' @ [7879]
                   @ str ''m '' @ [273, 250] @ str ''ng sai'')
                  (str ''Th'' @ [237] @ str '' sinh ch'' @ [7885] @ str ''n '' @ [272, 250]
                   @ str ''ng ho'' @ [7863] @ str ''c Sai cho m'' @ [7895] @ str ''i '' @ [253]
                   @ str '' a), b), c), d)'')
                  true_false part2Questions acc;
          acc = add_section add_answered
                  (str ''PH'' @ [7846] @ str ''N 3. Tr'' @ [7855] @ str ''c nghi'' @ [7879]
                   @ str ''m tr'' @ [7843] @ str '' l'' @ [7901] @ str ''i ng'' @ [7855] @ str ''n'')
                  (str ''Th'' @ [237] @ str '' sinh '' @ [273] @ str ''i'' @ [7873] @ str ''n ''
                   @ [273, 225] @ str ''p '' @ [225] @ str ''n s'' @ [7889] @ str '' v'' @ [224]
                   @ str ''o '' @ [244] @ str '' tr'' @ [7889] @ str ''ng'')
                  short_answer part3Questions acc
      in fst acc)"

definition parseAllQuestions :: "paragraphData list \<Rightarrow> imageData list \<Rightarrow> error + examData" where
  "parseAllQuestions paragraphs images =
     (let fullText = join [10] (map p_text paragraphs);
          sectionInfo = detectSections fullText paragraphs
      in case parsePart1WithUnderline paragraphs (part1Start sectionInfo) (part2Start sectionInfo)
                images of
           Inl e \<Rightarrow> Inl e
         | Inr part1Questions \<Rightarrow>
        (case parsePart2 paragraphs (part2Start sectionInfo) (part3Start sectionInfo) images of
           Inl e \<Rightarrow> Inl e
         | Inr part2Questions \<Rightarrow>
        (case parsePart3 paragraphs (part3Start sectionInfo) (int (length paragraphs)) images of
           Inl e \<Rightarrow> Inl e
         | Inr part3Questions \<Rightarrow>
             Inr (assemble part1Questions part2Questions part3Questions))))"

section \<open>Validation\<close>

record validation =
  valid :: bool
  v_errors :: "jstring list"

definition noQuestionsMessage :: jstring where
  "noQuestionsMessage =
     str ''Kh'' @ [244] @ str ''ng t'' @ [236] @ str ''m th'' @ [7845] @ str ''y c'' @ [226]
     @ str ''u h'' @ [7887] @ str ''i n'' @ [224] @ str ''o trong file''"

definition missingContentMessage :: "question \<Rightarrow> jstring" where
  "missingContentMessage q =
     str ''C'' @ [226] @ str ''u '' @ showNat (q_number q) @ str '': Thi'' @ [7871] @ str ''u n''
     @ [7897] @ str ''i dung c'' @ [226] @ str ''u h'' @ [7887] @ str ''i''"

definition emptyStem :: "question \<Rightarrow> bool" where
  "emptyStem q = (q_text q = [] \<or> trim (q_text q) = [])"

definition validateExamData :: "examData \<Rightarrow> validation" where
  "validateExamData data =
     (let errors = (if ed_questions data = [] then [noQuestionsMessage] else []);
          errors = foldl (\<lambda>errors q. if emptyStem q then errors @ [missingContentMessage q]
                                      else errors)
                     errors (ed_questions data)
      in \<lparr>valid = (errors = []), v_errors = errors\<rparr>)"

section \<open>Image lists hold no id twice\<close>

lemma find_None_img_id:
  "(find (\<lambda>i. img_id i = x) xs = None) = (x \<notin> img_id ` set xs)"
  by (induction xs) auto

lemma attachImages_distinct:
  "distinct (map img_id (pq_images q)) \<Longrightarrow>
   distinct (map img_id (pq_images (attachImages q rs images)))"
proof (induction rs arbitrary: q)
  case Nil
  then show ?case by simp
next
  case (Cons r rs)
  show ?case
  proof (cases "resolveImage images r")
    case None
    with Cons show ?thesis by simp
  next
    case (Some img)
    show ?thesis
    proof (cases "find (\<lambda>i. img_id i = img_id img) (pq_images q) = None")
      case True
      then have "img_id img \<notin> img_id ` set (pq_images q)"
        by (simp add: find_None_img_id)
      with Cons.prems
      have "distinct (map img_id (pq_images (q\<lparr>pq_images := pq_images q @ [img]\<rparr>)))"
        by simp
      from Cons.IH [OF this] Some True show ?thesis by simp
    next
      case False
      then obtain y where "find (\<lambda>i. img_id i = img_id img) (pq_images q) = Some y"
        by auto
      with Cons Some show ?thesis by simp
    qed
  qed
qed

lemma attach_calls_distinct:
  "distinct (map img_id (pq_images q)) \<Longrightarrow>
   distinct (map img_id (pq_images (foldl (\<lambda>q' rs. attachImages q' rs images) q calls)))"
  by (induction calls arbitrary: q) (simp_all add: attachImages_distinct)

text \<open>
  Claim C10. A question's image list never holds two entries with the same image id:
  whatever sequence of \<open>attachImages\<close> calls is run on a question whose image list is
  duplicate-free (a fresh question's list is empty), the list stays duplicate-free by id;
  and attaching a relationship id that resolves to an asset whose id is already in the
  list leaves the question unchanged.
\<close>

theorem attachImages_no_duplicate_ids:
  "(distinct (map img_id (pq_images q)) \<longrightarrow>
      distinct (map img_id (pq_images (foldl (\<lambda>q' rs. attachImages q' rs images) q calls))))
   \<and> (resolveImage images r = Some img \<and> img_id img \<in> img_id ` set (pq_images q) \<longrightarrow>
      attachImages q [r] images = q)"
proof (intro conjI impI)
  assume "distinct (map img_id (pq_images q))"
  then show "distinct (map img_id (pq_images (foldl (\<lambda>q' rs. attachImages q' rs images) q calls)))"
    by (rule attach_calls_distinct)
next
  assume a: "resolveImage images r = Some img \<and> img_id img \<in> img_id ` set (pq_images q)"
  then have "find (\<lambda>i. img_id i = img_id img) (pq_images q) \<noteq> None"
    by (simp add: find_None_img_id)
  then obtain y where "find (\<lambda>i. img_id i = img_id img) (pq_images q) = Some y"
    by auto
  with a show "attachImages q [r] images = q" by simp
qed

definition ex_img :: imageData where
  "ex_img = \<lparr>img_id = str ''img_0'', filename = str ''image1.png'', base64 = [],
     contentType = str ''image/png'', rId = str ''rId5''\<rparr>"

definition ex_q :: parsedQuestion where
  "ex_q = \<lparr>pq_number = 1, globalIndex = 0, pq_part = 1, pq_type = multiple_choice,
     pq_text = [], pq_options = [], pq_correctAnswer = None, pq_solution = [],
     pq_images = [ex_img]\<rparr>"

theorem attachImages_no_duplicate_ids_witness:
  "distinct (map img_id (pq_images ex_q))
   \<and> distinct (map img_id (pq_images
        (foldl (\<lambda>q' rs. attachImages q' rs [ex_img]) ex_q
           [[str ''rId5''], [str ''rId5'', str ''rId9'']])))
   \<and> resolveImage [ex_img] (str ''rId5'') = Some ex_img
   \<and> img_id ex_img \<in> img_id ` set (pq_images ex_q)
   \<and> attachImages ex_q [str ''rId5''] [ex_img] = ex_q"
  using attachImages_no_duplicate_ids
    [of ex_q "[ex_img]" "[[str ''rId5''], [str ''rId5'', str ''rId9'']]" "str ''rId5''" ex_img]
  by (simp add: resolveImage_def ex_q_def ex_img_def)

section \<open>The validation report\<close>

lemma validate_errors_foldl:
  "foldl (\<lambda>errors q. if emptyStem q then errors @ [missingContentMessage q] else errors) acc qs
   = acc @ map missingContentMessage (filter emptyStem qs)"
  by (induction qs arbitrary: acc) simp_all

text \<open>
  Claim C9, as amended. The validation pass returns one "missing content" error per
  question whose stem is empty or whitespace-only, in question order, after one "no
  question found" error when the exam has no question at all; \<open>valid\<close> holds exactly when
  the exam has a question and none has an empty stem.
\<close>

theorem validateExamData_errors:
  "v_errors (validateExamData data) =
     (if ed_questions data = [] then [noQuestionsMessage] else [])
     @ map missingContentMessage (filter emptyStem (ed_questions data))
   \<and> valid (validateExamData data) =
       (ed_questions data \<noteq> [] \<and> filter emptyStem (ed_questions data) = [])"
  by (simp add: validateExamData_def validate_errors_foldl)

definition ex_question :: "jstring \<Rightarrow> question" where
  "ex_question stem =
     \<lparr>q_number = 101, q_text = stem, q_type = multiple_choice, q_options = [],
      q_correctAnswer = None, q_part = [], q_images = [], q_solution = [],
      q_section = \<lparr>sec_letter = [], sec_name = [], sec_points = []\<rparr>\<rparr>"

definition ex_exam :: "question list \<Rightarrow> examData" where
  "ex_exam qs =
     \<lparr>ed_title = [], ed_timeLimit = 90, ed_sections = [], ed_questions = qs,
      ed_answers = Map.empty, ed_images = []\<rparr>"

theorem validateExamData_errors_witness:
  "v_errors (validateExamData (ex_exam [ex_question (str ''  ''), ex_question (str ''x'')]))
     = [missingContentMessage (ex_question (str ''  ''))]
   \<and> valid (validateExamData (ex_exam [ex_question (str ''  ''), ex_question (str ''x'')])) = False"
  using validateExamData_errors [of "ex_exam [ex_question (str ''  ''), ex_question (str ''x'')]"]
  by (simp add: ex_exam_def ex_question_def emptyStem_def trim_def isWhiteSpace_def str_def)

theorem validateExamData_no_questions_counterexample:
  "\<not> (length (v_errors (validateExamData (ex_exam [])))
          = length (filter emptyStem (ed_questions (ex_exam [])))
        \<and> valid (validateExamData (ex_exam []))
          = (filter emptyStem (ed_questions (ex_exam [])) = []))"
  by (simp add: validateExamData_def ex_exam_def)

section \<open>Evaluating the normalizer and the sanitizer\<close>

lemmas rx_ev = rx_exec_def rx_test_def cat_def lits_def plus_def opt_def atLeast3_def ws_def
  any_char_def start_at_def advance_def isWhiteSpace_def isDigit_def isLineTerminator_def
  canonicalize_def ms_star_simps search_from.simps group_def str_def

lemmas rep_ev = matchAll_from.simps replace_all_def replace_first_def matched_text_def

text \<open>
  Claim C3 at two inputs. The template \<open>'$$$$1$$$$'\<close> of the first pass holds no \<open>$1\<close>:
  its dollar signs pair off as four \<open>$$\<close>, so \<open>\[x\]\<close> becomes \<open>$$1$$\<close> and the enclosed
  content is lost. The template \<open>'$$'\<close> of the fifth pass stands for one dollar sign, so a
  run of three dollar signs becomes one, not two.
\<close>

theorem normalizeLatex_templates:
  "normalizeLatex ([92] @ str ''[x'' @ [92] @ str '']'') = str ''$$1$$''
   \<and> normalizeLatex (str ''$$$'') = str ''$''"
proof
  let ?a = "[92, 91, 120, 92, 93]" and ?b = "[36, 36, 49, 36, 36]"
  have 1: "replace_all False
             (cat [lits ([92] @ str ''[''), Grp 1 (LazyStar any_char), lits ([92] @ str '']'')])
             1 (str ''$$$$1$$$$'') ?a = ?b"
    by (simp add: rx_ev rep_ev)
  have 2: "replace_all False
             (cat [lits ([92] @ str ''(''), Grp 1 (LazyStar any_char), lits ([92] @ str '')'')])
             1 (str ''$$$1$$'') ?b = ?b"
    by (simp add: rx_ev rep_ev)
  have 3: "replace_all False
             (cat [lits ([92] @ str ''begin{align''), opt (Cls [Lit 42]), Cls [Lit 125]])
             0 ([92] @ str ''begin{aligned}'') ?b = ?b"
    by (simp add: rx_ev rep_ev)
  have 4: "replace_all False
             (cat [lits ([92] @ str ''end{align''), opt (Cls [Lit 42]), Cls [Lit 125]])
             0 ([92] @ str ''end{aligned}'') ?b = ?b"
    by (simp add: rx_ev rep_ev)
  have 5: "replace_all False (atLeast3 (Cls [Lit 36])) 0 (str ''$$'') ?b = ?b"
    by (simp add: rx_ev rep_ev)
  have 6: "replace_all False (plus (Cls [Lit 32, Lit 9])) 0 (str '' '') ?b = ?b"
    by (simp add: rx_ev rep_ev)
  have 7: "replace_all False (atLeast3 (Cls [Lit 10])) 0 [10, 10] ?b = ?b"
    by (simp add: rx_ev rep_ev)
  have a: "[92] @ str ''[x'' @ [92] @ str '']'' = ?a" and b: "str ''$$1$$'' = ?b"
    by (simp_all add: str_def)
  show "normalizeLatex ([92] @ str ''[x'' @ [92] @ str '']'') = str ''$$1$$''"
    unfolding a b normalizeLatex_def Let_def 1 2 3 4 5 6 7
    by (simp add: trim_def isWhiteSpace_def)
next
  let ?c = "[36, 36, 36]" and ?d = "[36]"
  have 1: "replace_all False
             (cat [lits ([92] @ str ''[''), Grp 1 (LazyStar any_char), lits ([92] @ str '']'')])
             1 (str ''$$$$1$$$$'') ?c = ?c"
    by (simp add: rx_ev rep_ev)
  have 2: "replace_all False
             (cat [lits ([92] @ str ''(''), Grp 1 (LazyStar any_char), lits ([92] @ str '')'')])
             1 (str ''$$$1$$'') ?c = ?c"
    by (simp add: rx_ev rep_ev)
  have 3: "replace_all False
             (cat [lits ([92] @ str ''begin{align''), opt (Cls [Lit 42]), Cls [Lit 125]])
             0 ([92] @ str ''begin{aligned}'') ?c = ?c"
    by (simp add: rx_ev rep_ev)
  have 4: "replace_all False
             (cat [lits ([92] @ str ''end{align''), opt (Cls [Lit 42]), Cls [Lit 125]])
             0 ([92] @ str ''end{aligned}'') ?c = ?c"
    by (simp add: rx_ev rep_ev)
  have 5: "replace_all False (atLeast3 (Cls [Lit 36])) 0 (str ''$$'') ?c = ?d"
    by (simp add: rx_ev rep_ev)
  have 6: "replace_all False (plus (Cls [Lit 32, Lit 9])) 0 (str '' '') ?d = ?d"
    by (simp add: rx_ev rep_ev)
  have 7: "replace_all False (atLeast3 (Cls [Lit 10])) 0 [10, 10] ?d = ?d"
    by (simp add: rx_ev rep_ev)
  have c: "str ''$$$'' = ?c" and d: "str ''$'' = ?d"
    by (simp_all add: str_def)
  show "normalizeLatex (str ''$$$'') = str ''$''"
    unfolding c d normalizeLatex_def Let_def 1 2 3 4 5 6 7
    by (simp add: trim_def isWhiteSpace_def)
qed


text \<open>
  Claim C2 at the input \<open>$$x$$\<close>. The block is protected as it is, but the loop that
  restores the blocks passes each block to \<open>replace\<close> as the replacement string, where it
  is read as a template: each \<open>$$\<close> of the block comes back as a single dollar sign, and
  the block-math region \<open>$$x$$\<close> is returned as the inline region \<open>$x$\<close>.
\<close>

theorem escapeHtmlPreserveLaTeX_block_delimiters:
  "escapeHtmlPreserveLaTeX (str ''$$x$$'') = str ''$x$''"
proof -
  let ?a = "[36, 36, 120, 36, 36]"
  let ?p = "placeholder 0"
  have p: "?p = [95, 95, 76, 65, 84, 69, 88, 95, 66, 76, 79, 67, 75, 95, 48, 95, 95]"
    by (simp add: placeholder_def str_def showNat.simps)
  have 1: "protect (cat [lits (str ''$$''), Grp 1 (LazyStar any_char), lits (str ''$$'')]) (?a, [])
           = (?p, [?a])"
    by (simp add: protect_def rx_ev rep_ev)
  have 2: "protect (cat [Cls [Lit 36], NegLook (Cls [Lit 36]), Grp 1 (LazyStar any_char),
                         Cls [Lit 36], NegLook (Cls [Lit 36])]) (?p, [?a]) = (?p, [?a])"
    unfolding p by (simp add: protect_def rx_ev rep_ev)
  have 3: "replace_all False (Cls [Lit 38]) 0 (str ''&amp;'') ?p = ?p"
    unfolding p by (simp add: rx_ev rep_ev)
  have 4: "replace_all False (Cls [Lit 60]) 0 (str ''&lt;'') ?p = ?p"
    unfolding p by (simp add: rx_ev rep_ev)
  have 5: "replace_all False (Cls [Lit 62]) 0 (str ''&gt;'') ?p = ?p"
    unfolding p by (simp add: rx_ev rep_ev)
  have 6: "restore ?p [?a] = [36, 120, 36]"
    by (simp add: restore_def replace_first_def p)
  have a: "str ''$$x$$'' = ?a" and b: "str ''$x$'' = [36, 120, 36]"
    by (simp_all add: str_def)
  show ?thesis
    unfolding a b escapeHtmlPreserveLaTeX_def Let_def 1 fst_conv snd_conv 2 3 4 5 6
    by simp
qed

section \<open>The section parsers raise no exception\<close>

lemma attachImages_fields [simp]:
  "pq_number (attachImages q rs images) = pq_number q"
  "pq_part (attachImages q rs images) = pq_part q"
  "pq_type (attachImages q rs images) = pq_type q"
  "pq_text (attachImages q rs images) = pq_text q"
  "pq_options (attachImages q rs images) = pq_options q"
  "pq_correctAnswer (attachImages q rs images) = pq_correctAnswer q"
  "pq_solution (attachImages q rs images) = pq_solution q"
  by (induction rs arbitrary: q; simp split: option.splits)+

lemma attachIfAny_fields [simp]:
  "pq_number (attachIfAny q rs images) = pq_number q"
  "pq_part (attachIfAny q rs images) = pq_part q"
  "pq_type (attachIfAny q rs images) = pq_type q"
  "pq_text (attachIfAny q rs images) = pq_text q"
  "pq_options (attachIfAny q rs images) = pq_options q"
  "pq_correctAnswer (attachIfAny q rs images) = pq_correctAnswer q"
  "pq_solution (attachIfAny q rs images) = pq_solution q"
  by (simp_all add: attachIfAny_def)


















section \<open>Facts about the patterns\<close>

text \<open>A pattern that starts with \<open>^\<close> matches at index 0 or nowhere.\<close>

lemma search_from_Bol_later:
  "0 < i \<Longrightarrow> search_from ic (Seq Bol r) tx i = None"
proof (induction ic "Seq Bol r" tx i rule: search_from.induct)
  case (1 ic tx i)
  have "ms ic (Seq Bol r) (start_at tx i) = []"
    using 1(2) by (simp add: start_at_def)
  with 1 show ?case
    by (simp add: search_from.simps [of ic "Seq Bol r" tx i])
qed

lemma rx_exec_Bol:
  "rx_exec ic (Seq Bol r) tx =
     (case ms ic r (start_at tx 0) of s # _ \<Rightarrow> Some (0, s) | [] \<Rightarrow> None)"
proof -
  have "ms ic (Seq Bol r) (start_at tx 0) = ms ic r (start_at tx 0)"
    by (simp add: start_at_def)
  then show ?thesis
    by (simp add: rx_exec_def search_from.simps [of ic "Seq Bol r" tx 0]
          search_from_Bol_later split: list.splits)
qed

lemma rx_exec_Bol_SomeD:
  "rx_exec ic (Seq Bol r) tx = Some m \<Longrightarrow> fst m = 0 \<and> snd m \<in> set (ms ic r (start_at tx 0))"
  by (auto simp: rx_exec_Bol split: list.splits)

lemma rx_test_Bol:
  "rx_test ic (Seq Bol r) tx = (ms ic r (start_at tx 0) \<noteq> [])"
  by (simp add: rx_test_def rx_exec_Bol split: list.splits)

text \<open>The capture groups of a pattern; matching a pattern leaves the other captures alone.\<close>

fun groups_of :: "rx \<Rightarrow> nat set" where
  "groups_of (Seq a b) = groups_of a \<union> groups_of b"
| "groups_of (Alt a b) = groups_of a \<union> groups_of b"
| "groups_of (Star r) = groups_of r"
| "groups_of (LazyStar r) = groups_of r"
| "groups_of (Grp k r) = insert k (groups_of r)"
| "groups_of (NegLook r) = groups_of r"
| "groups_of r = {}"

lemma ms_caps_frame:
  "s' \<in> set (ms ic r s) \<Longrightarrow> k \<notin> groups_of r \<Longrightarrow> m_caps s' k = m_caps s k"
proof (induction ic r s arbitrary: s' rule: ms.induct)
  case (1 ic s)
  then show ?case by simp
next
  case (2 ic as s)
  then show ?case by (auto simp: advance_def split: list.splits if_splits)
next
  case (3 ic s)
  then show ?case by (auto simp: advance_def split: list.splits if_splits)
next
  case (4 ic s)
  then show ?case by (auto split: if_splits)
next
  case (5 ic s)
  then show ?case by (auto split: if_splits)
next
  case (6 ic a b s)
  from 6(3) obtain s1 where s1: "s1 \<in> set (ms ic a s)" "s' \<in> set (ms ic b s1)" by auto
  from 6(1) [OF s1(1)] 6(2) [OF s1(1) s1(2)] 6(4) show ?case by simp
next
  case (7 ic a b s)
  then show ?case by auto
next
  case (8 ic r s)
  from 8(3) have "s' \<in> set (concat (map (\<lambda>s'. if length (m_rest s') < length (m_rest s)
                      then ms ic (Star r) s' else []) (ms ic r s)) @ [s])"
    by (simp add: ms_star_simps(1) [of ic r s])
  then consider "s' = s"
    | s1 where "s1 \<in> set (ms ic r s)" "length (m_rest s1) < length (m_rest s)"
        "s' \<in> set (ms ic (Star r) s1)"
    by (auto split: if_splits)
  then show ?case
  proof cases
    case 1
    then show ?thesis by simp
  next
    case 2
    from 8(1) [OF 2(1)] 8(2) [OF 2(1) 2(2) 2(3)] 8(4) show ?thesis by simp
  qed
next
  case (9 ic r s)
  from 9(3) have "s' \<in> set (s # concat (map (\<lambda>s'. if length (m_rest s') < length (m_rest s)
                      then ms ic (LazyStar r) s' else []) (ms ic r s)))"
    by (simp add: ms_star_simps(2) [of ic r s])
  then consider "s' = s"
    | s1 where "s1 \<in> set (ms ic r s)" "length (m_rest s1) < length (m_rest s)"
        "s' \<in> set (ms ic (LazyStar r) s1)"
    by (auto split: if_splits)
  then show ?case
  proof cases
    case 1
    then show ?thesis by simp
  next
    case 2
    from 9(1) [OF 2(1)] 9(2) [OF 2(1) 2(2) 2(3)] 9(4) show ?thesis by simp
  qed
next
  case (10 ic k' r s)
  then show ?case by auto
next
  case (11 ic r s)
  then show ?case by (auto split: if_splits)
qed

text \<open>Under the \<open>i\<close> flag the classes \<open>[A-D]\<close> and \<open>[a-d]\<close> match the same eight letters.\<close>

lemma canonicalize_AD:
  "(65 \<le> canonicalize c \<and> canonicalize c \<le> 68) =
   ((65 \<le> c \<and> c \<le> 68) \<or> (97 \<le> c \<and> c \<le> 100))"
  by (auto simp: canonicalize_def)

lemma atom_match_AD:
  "atom_match True (Rng 65 68) c = ((65 \<le> c \<and> c \<le> 68) \<or> (97 \<le> c \<and> c \<le> 100))"
proof -
  have "atom_match True (Rng 65 68) c
        = (canonicalize c = 65 \<or> canonicalize c = 66 \<or> canonicalize c = 67 \<or> canonicalize c = 68)"
    by (auto simp: canonicalize_def [of 65] canonicalize_def [of 66] canonicalize_def [of 67]
          canonicalize_def [of 68])
  also have "\<dots> = (65 \<le> canonicalize c \<and> canonicalize c \<le> 68)" by arith
  finally show ?thesis by (simp only: canonicalize_AD)
qed

lemma atom_match_ad:
  "atom_match True (Rng 97 100) c = ((65 \<le> c \<and> c \<le> 68) \<or> (97 \<le> c \<and> c \<le> 100))"
proof -
  have "atom_match True (Rng 97 100) c
        = (canonicalize c = 65 \<or> canonicalize c = 66 \<or> canonicalize c = 67 \<or> canonicalize c = 68)"
    by (auto simp: canonicalize_def [of 97] canonicalize_def [of 98] canonicalize_def [of 99]
          canonicalize_def [of 100])
  also have "\<dots> = (65 \<le> canonicalize c \<and> canonicalize c \<le> 68)" by arith
  finally show ?thesis by (simp only: canonicalize_AD)
qed

lemma ms_SeqE:
  assumes "s' \<in> set (ms ic (Seq a b) s)"
  obtains s1 where "s1 \<in> set (ms ic a s)" "s' \<in> set (ms ic b s1)"
  using assms by auto

lemma ms_Grp_ClsD:
  assumes "s' \<in> set (ms ic (Grp k (Cls as)) s)"
  shows "\<exists>c cs. m_rest s = c # cs \<and> (\<exists>a\<in>set as. atom_match ic a c) \<and> m_caps s' k = Some [c]"
proof (cases "m_rest s")
  case Nil
  with assms show ?thesis by simp
next
  case (Cons c cs)
  with assms show ?thesis
    by (auto simp: advance_def simp del: atom_match.simps split: if_splits)
qed

text \<open>
  The first group of the option and statement patterns is one of the eight letters, and
  nothing after the group touches it.
\<close>

lemma letter_group:
  assumes m: "rx_exec True (cat [Bol, Star ws, Grp 1 (Cls [Rng lo hi]), Star ws, Cls sep, Star ws,
                                 Grp 2 (Star Dot)]) tx = Some m"
    and cls: "\<And>c. atom_match True (Rng lo hi) c = ((65 \<le> c \<and> c \<le> 68) \<or> (97 \<le> c \<and> c \<le> 100))"
  shows "\<exists>c. group m 1 = [c] \<and> ((65 \<le> c \<and> c \<le> 68) \<or> (97 \<le> c \<and> c \<le> 100))"
proof -
  let ?rest = "Seq (Star ws) (Seq (Cls sep) (Seq (Star ws) (Seq (Grp 2 (Star Dot)) Eps)))"
  have pat: "cat [Bol, Star ws, Grp 1 (Cls [Rng lo hi]), Star ws, Cls sep, Star ws, Grp 2 (Star Dot)]
             = Seq Bol (Seq (Star ws) (Seq (Grp 1 (Cls [Rng lo hi])) ?rest))"
    by (simp add: cat_def)
  from m have "snd m \<in> set (ms True (Seq (Star ws) (Seq (Grp 1 (Cls [Rng lo hi])) ?rest))
                               (start_at tx 0))"
    unfolding pat by (rule rx_exec_Bol_SomeD [THEN conjunct2])
  then obtain s1 where "snd m \<in> set (ms True (Seq (Grp 1 (Cls [Rng lo hi])) ?rest) s1)"
    by (rule ms_SeqE)
  then obtain s2 where
    s2: "s2 \<in> set (ms True (Grp 1 (Cls [Rng lo hi])) s1)" and s: "snd m \<in> set (ms True ?rest s2)"
    by (rule ms_SeqE)
  from ms_Grp_ClsD [OF s2] obtain c where c: "m_caps s2 1 = Some [c]" "atom_match True (Rng lo hi) c"
    by auto
  have "1 \<notin> groups_of ?rest" by (simp add: ws_def)
  from ms_caps_frame [OF s this] c(1) have g: "group m 1 = [c]" by (simp add: group_def)
  from c(2) have "(65 \<le> c \<and> c \<le> 68) \<or> (97 \<le> c \<and> c \<le> 100)" by (simp only: cls)
  with g show ?thesis by blast
qed

lemma optionPattern_letter:
  assumes "rx_exec True optionPattern tx = Some m"
  shows "toUpperCase (group m 1) \<in> {[65], [66], [67], [68]}"
proof -
  from letter_group [OF assms [unfolded optionPattern_def] atom_match_AD]
  obtain c where "group m 1 = [c]" "(65 \<le> c \<and> c \<le> 68) \<or> (97 \<le> c \<and> c \<le> 100)" by blast
  then show ?thesis by (auto simp: toUpperCase_def)
qed



text \<open>A figure line starts with \<open>H\<close> or \<open>h\<close>, so it is no other marker and no option.\<close>

lemma canonicalize_H: "(canonicalize c = 72) = (c = 72 \<or> c = 104)"
  by (auto simp: canonicalize_def)

lemma canonicalize_of_H:
  "c = 72 \<or> c = 104 \<Longrightarrow> canonicalize c = 72"
  by (auto simp: canonicalize_def)

lemma isFigure_first:
  assumes "isFigure tx"
  shows "\<exists>c cs. tx = c # cs \<and> (c = 72 \<or> c = 104)"
proof (cases tx)
  case Nil
  with assms show ?thesis
    by (simp add: isFigure_def figurePattern_def cat_def rx_test_Bol start_at_def)
next
  case (Cons c cs)
  with assms have "canonicalize c = 72"
    by (simp add: isFigure_def figurePattern_def cat_def rx_test_Bol start_at_def
          canonicalize_def [of 72] split: if_splits)
  with Cons show ?thesis by (simp add: canonicalize_H)
qed

lemma ms_Star_Cls_nomatch:
  assumes "m_rest s = c # cs" and "\<not> (\<exists>a\<in>set as. atom_match ic a c)"
  shows "ms ic (Star (Cls as)) s = [s]"
  using assms by (simp add: ms_star_simps(1) [of ic "Cls as" s] del: atom_match.simps)

lemma H_not_space: "c = 72 \<or> c = 104 \<Longrightarrow> \<not> isWhiteSpace c"
  by (auto simp: isWhiteSpace_def)

lemma figure_not_question:
  assumes "isFigure tx"
  shows "rx_exec True questionPattern tx = None"
proof -
  from isFigure_first [OF assms] obtain c cs where tx: "tx = c # cs" and c: "c = 72 \<or> c = 104"
    by blast
  from c have "canonicalize 67 \<noteq> canonicalize c" by (auto simp: canonicalize_def)
  then show ?thesis
    by (simp add: tx questionPattern_def cat_def rx_exec_Bol start_at_def)
qed

lemma figure_not_solution:
  assumes "isFigure tx"
  shows "\<not> rx_test True solutionPattern tx"
proof -
  from isFigure_first [OF assms] obtain c cs where tx: "tx = c # cs" and c: "c = 72 \<or> c = 104"
    by blast
  from c have "canonicalize 76 \<noteq> canonicalize c" by (auto simp: canonicalize_def)
  then show ?thesis
    by (simp add: tx solutionPattern_def cat_def rx_test_Bol start_at_def)
qed

lemma figure_not_letter_line:
  assumes "isFigure tx"
    and cls: "\<And>c. atom_match True (Rng lo hi) c = ((65 \<le> c \<and> c \<le> 68) \<or> (97 \<le> c \<and> c \<le> 100))"
  shows "rx_exec True (cat [Bol, Star ws, Grp 1 (Cls [Rng lo hi]), Star ws, Cls sep, Star ws,
                            Grp 2 (Star Dot)]) tx = None"
proof -
  from isFigure_first [OF assms(1)] obtain c cs where tx: "tx = c # cs" and c: "c = 72 \<or> c = 104"
    by blast
  let ?s0 = "start_at tx 0"
  have r: "m_rest ?s0 = c # cs" by (simp add: start_at_def tx)
  have "\<not> (\<exists>a\<in>set [Space]. atom_match True a c)" using H_not_space [OF c] by simp
  from ms_Star_Cls_nomatch [OF r this] have star: "ms True (Star ws) ?s0 = [?s0]"
    by (simp add: ws_def)
  have "\<not> atom_match True (Rng lo hi) c" using c by (auto simp only: cls)
  then have "ms True (Grp 1 (Cls [Rng lo hi])) ?s0 = []"
    using r by (simp del: atom_match.simps)
  with star show ?thesis
    by (simp add: cat_def rx_exec_Bol del: atom_match.simps)
qed

lemma figure_not_option:
  "isFigure tx \<Longrightarrow> rx_exec True optionPattern tx = None"
  unfolding optionPattern_def by (rule figure_not_letter_line [OF _ atom_match_AD])

lemma figure_not_statement:
  "isFigure tx \<Longrightarrow> rx_exec True statementPattern tx = None"
  unfolding statementPattern_def by (rule figure_not_letter_line [OF _ atom_match_ad])

lemma figure_not_answer3:
  assumes "isFigure tx"
  shows "rx_exec True answerPattern3 tx = None"
proof -
  from isFigure_first [OF assms] obtain c cs where tx: "tx = c # cs" and c: "c = 72 \<or> c = 104"
    by blast
  let ?s0 = "start_at tx 0"
  have r: "m_rest ?s0 = c # cs" by (simp add: start_at_def tx)
  from c have n: "canonicalize 42 \<noteq> canonicalize c" "canonicalize 272 \<noteq> canonicalize c"
    "canonicalize 68 \<noteq> canonicalize c"
    by (auto simp: canonicalize_def)
  have "\<not> (\<exists>a\<in>set [Lit 42, Space]. atom_match True a c)"
    using H_not_space [OF c] n by simp
  from ms_Star_Cls_nomatch [OF r this]
  have star: "ms True (Star (Cls [Lit 42, Space])) ?s0 = [?s0]" .
  have "ms True (Alt (Cls [Lit 272]) (Cls [Lit 68])) ?s0 = []"
    using r n by simp
  with star show ?thesis
    by (simp add: answerPattern3_def cat_def rx_exec_Bol)
qed

text \<open>One letter of \<open>A\<close> to \<open>D\<close> passes the test of the underlined answers.\<close>

lemma singleLetter_test:
  "l \<in> {[65], [66], [67], [68]} \<Longrightarrow> rx_test True singleLetterPattern l"
  by (elim insertE emptyE)
     (simp_all add: singleLetterPattern_def cat_def rx_test_Bol start_at_def advance_def
        canonicalize_def)

section \<open>What a step of a section parser changes\<close>




text \<open>
  Number, section index and type of a question are set when its question line is read
  and never change afterwards.
\<close>

definition same_key :: "parsedQuestion \<Rightarrow> parsedQuestion \<Rightarrow> bool" where
  "same_key q q' =
     (pq_number q' = pq_number q \<and> pq_part q' = pq_part q \<and> pq_type q' = pq_type q)"

definition pq_ok :: "nat \<Rightarrow> questionType \<Rightarrow> nat set \<Rightarrow> parsedQuestion \<Rightarrow> bool" where
  "pq_ok k ty A q = (pq_part q = k \<and> pq_type q = ty \<and> pq_number q \<in> A)"

lemma pq_ok_same_key: "same_key q q' \<Longrightarrow> pq_ok k ty A q \<Longrightarrow> pq_ok k ty A q'"
  by (simp add: same_key_def pq_ok_def)


lemma same_key_refl [simp]: "same_key q q"
  by (simp add: same_key_def)

lemma rel_same_key_refl [simp]: "rel_option same_key x x"
  by (cases x) simp_all

lemma same_key_attach [simp]:
  "same_key q (attachImages q rs images)" "same_key q (attachIfAny q rs images)"
  by (simp_all add: same_key_def)



































section \<open>Section offsets and the assembled exam\<close>





text \<open>
  The offsets of a document, as \<open>parseAllQuestions\<close> computes them; with them the three
  parsers never read past the paragraphs, so the parse always returns an exam.
\<close>

definition sectionInfoOf :: "paragraphData list \<Rightarrow> sectionInfo" where
  "sectionInfoOf ps = detectSections (join [10] (map p_text ps)) ps"


lemma convertToQuestion_gIndex: "convertToQuestion pq g = convertToQuestion pq 0"
  by (simp add: convertToQuestion_def)

lemma foldl_add_answered:
  "ed_questions (fst (foldl add_answered (ed, sq, g) pqs))
     = ed_questions ed @ map (\<lambda>pq. convertToQuestion pq 0) pqs
   \<and> ed_sections (fst (foldl add_answered (ed, sq, g) pqs)) = ed_sections ed
   \<and> fst (snd (foldl add_answered (ed, sq, g) pqs)) = sq @ map (\<lambda>pq. convertToQuestion pq 0) pqs"
proof (induction pqs arbitrary: ed sq g)
  case Nil
  then show ?case by simp
next
  case (Cons pq pqs)
  show ?case
    by (simp add: add_answered_def [of "(ed, sq, g)"] Let_def Cons.IH
          convertToQuestion_gIndex [of pq g])
qed

lemma foldl_add_unanswered:
  "ed_questions (fst (foldl add_unanswered (ed, sq, g) pqs))
     = ed_questions ed @ map (\<lambda>pq. convertToQuestion pq 0) pqs
   \<and> ed_sections (fst (foldl add_unanswered (ed, sq, g) pqs)) = ed_sections ed
   \<and> fst (snd (foldl add_unanswered (ed, sq, g) pqs)) = sq @ map (\<lambda>pq. convertToQuestion pq 0) pqs"
proof (induction pqs arbitrary: ed sq g)
  case Nil
  then show ?case by simp
next
  case (Cons pq pqs)
  show ?case
    by (simp add: add_unanswered_def [of "(ed, sq, g)"] Let_def Cons.IH
          convertToQuestion_gIndex [of pq g])
qed

lemma add_section_fields:
  assumes "body = add_answered \<or> body = add_unanswered"
  shows "ed_questions (fst (add_section body name description ty pqs acc))
           = ed_questions (fst acc) @ map (\<lambda>pq. convertToQuestion pq 0) pqs
         \<and> map sectionType (ed_sections (fst (add_section body name description ty pqs acc)))
           = map sectionType (ed_sections (fst acc)) @ (if pqs \<noteq> [] then [ty] else [])"
proof (cases acc)
  case (Pair ed g)
  from assms show ?thesis
  proof
    assume b: "body = add_answered"
    obtain ed' sq' g' where f: "foldl add_answered (ed, [], g) pqs = (ed', sq', g')"
      by (cases "foldl add_answered (ed, [], g) pqs") auto
    from foldl_add_answered [of ed "[]" g pqs] f show ?thesis
      by (simp add: add_section_def Pair b)
  next
    assume b: "body = add_unanswered"
    obtain ed' sq' g' where f: "foldl add_unanswered (ed, [], g) pqs = (ed', sq', g')"
      by (cases "foldl add_unanswered (ed, [], g) pqs") auto
    from foldl_add_unanswered [of ed "[]" g pqs] f show ?thesis
      by (simp add: add_section_def Pair b)
  qed
qed

lemma assemble_fields:
  "ed_questions (assemble p1 p2 p3) = map (\<lambda>pq. convertToQuestion pq 0) (p1 @ p2 @ p3)
   \<and> map sectionType (ed_sections (assemble p1 p2 p3))
     = (if p1 \<noteq> [] then [multiple_choice] else []) @ (if p2 \<noteq> [] then [true_false] else [])
       @ (if p3 \<noteq> [] then [short_answer] else [])"
  unfolding assemble_def Let_def
  by (simp add: add_section_fields)

section \<open>Encoded question numbers\<close>

lemma convert_fields [simp]:
  "q_number (convertToQuestion pq g) = pq_part pq * 100 + pq_number pq"
  "q_type (convertToQuestion pq g) = pq_type pq"
  "q_correctAnswer (convertToQuestion pq g) = pq_correctAnswer pq"
  "sec_letter (q_section (convertToQuestion pq g)) = showNat (pq_part pq)"
  by (simp_all add: convertToQuestion_def)


definition plain :: "jstring \<Rightarrow> paragraphData" where
  "plain t = \<lparr>p_text = t, imageRIds = [], hasUnderline = False, underlinedSegments = []\<rparr>"


lemmas detect_ev = sectionInfoOf_def detectSections_def detect_step_def matches_any_def
  part1Patterns_def part2Patterns_def part3Patterns_def plain_def Let_def

lemmas parse_ev = slice_def sectionHeader1_def partHeader_def isFigure_def questionPattern_def
  solutionPattern_def figurePattern_def newQuestion_def attachIfAny_def sortByNumber_def
  falsy_def trim_def parseInt_def toUpperCase_def toLowerCase_def resolveImage_def plain_def
  Let_def


lemmas p2_ev = parsePart2_def p2_init_def p2_step_def p2_question_def p2_solution_def
  p2_statement_def p2_other_def p2_rest_def p2_flush_def p2_finalize_def statementPattern_def
  set_add_def

lemmas p3_ev = parsePart3_def p3_init_def p3_step_def p3_question_def p3_solution_def
  p3_other_def p3_flush_def p3_finalize_def answerPattern3_def questionStart_def


definition stem_only :: "nat \<Rightarrow> nat \<Rightarrow> questionType \<Rightarrow> jstring \<Rightarrow> parsedQuestion" where
  "stem_only n k ty t = (newQuestion n k ty)\<lparr>pq_text := t\<rparr>"









section \<open>Documents without section headers\<close>





section \<open>The answer key\<close>

lemma foldl_add_unanswered_answers:
  "ed_answers (fst (foldl add_unanswered (ed, sq, g) pqs)) = ed_answers ed"
  by (induction pqs arbitrary: ed sq g) (simp_all add: add_unanswered_def Let_def)

lemma add_section_unanswered_answers:
  "ed_answers (fst (add_section add_unanswered name description ty pqs acc)) = ed_answers (fst acc)"
proof (cases acc)
  case (Pair ed g)
  obtain ed' sq' g' where f: "foldl add_unanswered (ed, [], g) pqs = (ed', sq', g')"
    by (cases "foldl add_unanswered (ed, [], g) pqs") auto
  from foldl_add_unanswered_answers [of ed "[]" g pqs] f show ?thesis
    by (simp add: add_section_def Pair)
qed

lemma add_section_Nil: "add_section body name description ty [] acc = acc"
  by (simp add: add_section_def)

lemma assemble_section2_only_answers: "ed_answers (assemble [] p2 []) = Map.empty"
  by (simp add: assemble_def Let_def add_section_Nil add_section_unanswered_answers)

definition underlined :: "jstring \<Rightarrow> paragraphData" where
  "underlined t = \<lparr>p_text = t, imageRIds = [], hasUnderline = True, underlinedSegments = [t]\<rparr>"

definition true_false_exam :: "paragraphData list" where
  "true_false_exam = [plain (str ''PHAN 2''), plain (str ''Cau 1. X''), underlined (str ''a) s'')]"

text \<open>
  Claim C1 at a document with one true/false question whose statement \<open>a\<close> is underlined:
  the question is numbered 201 and its correct answer is \<open>a\<close>, but the answer key has no
  entry for 201. The loop over the questions of section 2 lacks the line that the loops of
  sections 1 and 3 have.
\<close>

theorem answer_key_misses_section2:
  "map_sum id (\<lambda>ed. (map q_number (ed_questions ed), map q_correctAnswer (ed_questions ed),
                      ed_answers ed 201))
     (parseAllQuestions true_false_exam [])
   = Inr ([201], [Some (str ''a'')], None)"
proof -
  let ?q = "(stem_only 1 2 true_false (str ''X''))
              \<lparr>pq_options := [\<lparr>letter = str ''a'', opt_text = str ''s''\<rparr>],
                pq_correctAnswer := Some (str ''a'')\<rparr>"
  have i: "sectionInfoOf true_false_exam = \<lparr>part1Start = 0, part2Start = 0, part3Start = 3\<rparr>"
    by (simp add: true_false_exam_def underlined_def detect_ev rx_ev)
  have 1: "parsePart1WithUnderline true_false_exam 0 0 [] = Inr []"
    by (simp add: parsePart1WithUnderline_def)
  have 2: "parsePart2 true_false_exam 0 3 [] = Inr [?q]"
    by (simp add: true_false_exam_def underlined_def stem_only_def p2_ev parse_ev rx_ev group_def)
  have 3: "parsePart3 true_false_exam 3 3 [] = Inr []"
    by (simp add: parsePart3_def true_false_exam_def)
  have l: "int (length true_false_exam) = 3" by (simp add: true_false_exam_def)
  have "parseAllQuestions true_false_exam [] = Inr (assemble [] [?q] [])"
    unfolding parseAllQuestions_def Let_def sectionInfoOf_def [symmetric] i l
    by (simp add: 1 2 3)
  then show ?thesis
    by (simp add: assemble_fields assemble_section2_only_answers stem_only_def newQuestion_def)
qed

section \<open>Answers of the true/false section\<close>











lemma distinct_set_add [simp]: "distinct xs \<Longrightarrow> distinct (set_add x xs)"
  by (simp add: set_add_def)

lemma set_set_add [simp]: "set (set_add x xs) = insert x (set xs)"
  by (auto simp: set_add_def)


























end
